theory Spec2Isabelle
  imports Complex_Main
begin

section \<open>JavaScript values\<close>

text \<open>
  The analytics core of the application (stats.js, diff.js, \<open>normalizeSetupData\<close> of
  db.js and \<open>analyzeSetupChanges\<close> of sw.js) is embedded as HOL functions.

  A field that may be \<open>undefined\<close> or \<open>null\<close> is a \<open>nullable\<close>; the two are kept
  apart because the code tells them apart (\<open>new Date(null)\<close> is the epoch,
  \<open>new Date(undefined)\<close> is invalid, \<open>===\<close> distinguishes them).
\<close>

datatype 'a nullable = Undefined | Null | Val 'a

text \<open>
  Numbers are the reals together with \<open>NaN\<close> and the two infinities. Binary rounding,
  overflow to infinity, underflow to zero and the sign of zero are not modelled:
  arithmetic on finite values is exact, and a decimal literal denotes its exact value.
\<close>

datatype jsnum = NaN | NegInf | Fin real | PosInf

fun js_isNaN :: "jsnum \<Rightarrow> bool" where
  "js_isNaN NaN = True"
| "js_isNaN _ = False"

text \<open>The relational operators \<open><\<close> and \<open><=\<close> on numbers: false as soon as one side is NaN.\<close>

fun js_lt :: "jsnum \<Rightarrow> jsnum \<Rightarrow> bool" where
  "js_lt NaN _ = False"
| "js_lt _ NaN = False"
| "js_lt (Fin a) (Fin b) = (a < b)"
| "js_lt NegInf NegInf = False"
| "js_lt NegInf _ = True"
| "js_lt _ NegInf = False"
| "js_lt PosInf _ = False"
| "js_lt _ PosInf = True"

fun js_le :: "jsnum \<Rightarrow> jsnum \<Rightarrow> bool" where
  "js_le NaN _ = False"
| "js_le _ NaN = False"
| "js_le a b = (\<not> js_lt b a)"

fun js_neg :: "jsnum \<Rightarrow> jsnum" where
  "js_neg NaN = NaN"
| "js_neg NegInf = PosInf"
| "js_neg PosInf = NegInf"
| "js_neg (Fin a) = Fin (- a)"

fun js_add :: "jsnum \<Rightarrow> jsnum \<Rightarrow> jsnum" where
  "js_add NaN _ = NaN"
| "js_add _ NaN = NaN"
| "js_add (Fin a) (Fin b) = Fin (a + b)"
| "js_add PosInf NegInf = NaN"
| "js_add NegInf PosInf = NaN"
| "js_add PosInf _ = PosInf"
| "js_add _ PosInf = PosInf"
| "js_add NegInf _ = NegInf"
| "js_add _ NegInf = NegInf"

definition js_sub :: "jsnum \<Rightarrow> jsnum \<Rightarrow> jsnum" where
  "js_sub a b = js_add a (js_neg b)"

text \<open>
  Division; a zero divisor counts as \<open>+0\<close>. The code only ever divides a sum by the
  length of a non-empty array.
\<close>

fun js_div :: "jsnum \<Rightarrow> jsnum \<Rightarrow> jsnum" where
  "js_div NaN _ = NaN"
| "js_div _ NaN = NaN"
| "js_div (Fin a) (Fin b) =
     (if b = 0 then (if a = 0 then NaN else if 0 < a then PosInf else NegInf)
      else Fin (a / b))"
| "js_div (Fin a) _ = Fin 0"
| "js_div PosInf (Fin b) = (if 0 \<le> b then PosInf else NegInf)"
| "js_div NegInf (Fin b) = (if 0 \<le> b then NegInf else PosInf)"
| "js_div _ _ = NaN"

text \<open>\<open>Math.abs\<close>.\<close>

fun js_abs :: "jsnum \<Rightarrow> jsnum" where
  "js_abs NaN = NaN"
| "js_abs (Fin a) = Fin \<bar>a\<bar>"
| "js_abs _ = PosInf"

text \<open>
  \<open>Math.min(...xs)\<close>: NaN as soon as one argument is NaN, \<open>Infinity\<close> for no argument.
\<close>

definition js_min2 :: "jsnum \<Rightarrow> jsnum \<Rightarrow> jsnum" where
  "js_min2 a b = (if js_isNaN a \<or> js_isNaN b then NaN else if js_le a b then a else b)"

definition Math_min :: "jsnum list \<Rightarrow> jsnum" where
  "Math_min xs = foldl js_min2 PosInf xs"

text \<open>\<open>xs.reduce((sum, lap) => sum + lap, 0)\<close>.\<close>

definition reduce_sum :: "jsnum list \<Rightarrow> jsnum" where
  "reduce_sum xs = foldl js_add (Fin 0) xs"

section \<open>Strings and \<open>parseFloat\<close>\<close>

text \<open>
  Strings are lists of 8-bit characters, so the text is ASCII. White space is the
  ASCII part of what \<open>parseFloat\<close> and \<open>trim\<close> strip: tab, line feed, vertical tab,
  form feed, carriage return and space.
\<close>

definition is_ws :: "char \<Rightarrow> bool" where
  "is_ws c = (c \<in> set [CHR 0x09, CHR 0x0A, CHR 0x0B, CHR 0x0C, CHR 0x0D, CHR 0x20])"

definition digit_val :: "char \<Rightarrow> nat option" where
  "digit_val = map_of
     [(CHR ''0'', 0), (CHR ''1'', 1), (CHR ''2'', 2), (CHR ''3'', 3), (CHR ''4'', 4),
      (CHR ''5'', 5), (CHR ''6'', 6), (CHR ''7'', 7), (CHR ''8'', 8), (CHR ''9'', 9)]"

definition is_digit :: "char \<Rightarrow> bool" where
  "is_digit c = (digit_val c \<noteq> None)"

definition digits_val :: "string \<Rightarrow> nat" where
  "digits_val ds = foldl (\<lambda>acc c. 10 * acc + (case digit_val c of Some d \<Rightarrow> d | None \<Rightarrow> 0)) 0 ds"

text \<open>
  The optional exponent part \<open>e\<close>/\<open>E\<close>, sign, digits of a decimal literal, as the
  factor it contributes; an \<open>e\<close> with no digit after it is not part of the literal.
\<close>

definition exponent_factor :: "string \<Rightarrow> real" where
  "exponent_factor r =
     (case r of
        [] \<Rightarrow> 1
      | c # t \<Rightarrow>
          if c = CHR ''e'' \<or> c = CHR ''E'' then
            (case t of
               [] \<Rightarrow> 1
             | d # u \<Rightarrow>
                 if d = CHR ''+'' then
                   (if takeWhile is_digit u = [] then 1
                    else 10 ^ digits_val (takeWhile is_digit u))
                 else if d = CHR ''-'' then
                   (if takeWhile is_digit u = [] then 1
                    else 1 / 10 ^ digits_val (takeWhile is_digit u))
                 else if takeWhile is_digit t = [] then 1
                 else 10 ^ digits_val (takeWhile is_digit t))
          else 1)"

text \<open>
  The value of the longest prefix that is a \<open>StrUnsignedDecimalLiteral\<close>:
  \<open>Infinity\<close>, digits with an optional fraction and exponent, or a dot followed by
  digits; NaN when no prefix is one.
\<close>

definition str_unsigned_decimal :: "string \<Rightarrow> jsnum" where
  "str_unsigned_decimal s =
     (if take 8 s = ''Infinity'' then PosInf
      else
        let ip = takeWhile is_digit s;
            r1 = dropWhile is_digit s;
            fp = (case r1 of [] \<Rightarrow> [] | c # t \<Rightarrow> if c = CHR ''.'' then takeWhile is_digit t else []);
            r2 = (case r1 of [] \<Rightarrow> [] | c # t \<Rightarrow> if c = CHR ''.'' then dropWhile is_digit t else r1)
        in if ip = [] \<and> fp = [] then NaN
           else Fin ((real (digits_val ip) + real (digits_val fp) / 10 ^ length fp)
                     * exponent_factor r2))"

definition parseFloat :: "string \<Rightarrow> jsnum" where
  "parseFloat s =
     (case dropWhile is_ws s of
        [] \<Rightarrow> NaN
      | c # t \<Rightarrow>
          if c = CHR ''-'' then js_neg (str_unsigned_decimal t)
          else if c = CHR ''+'' then str_unsigned_decimal t
          else str_unsigned_decimal (c # t))"

text \<open>\<open>String.prototype.trim\<close>.\<close>

definition js_trim :: "string \<Rightarrow> string" where
  "js_trim s = rev (dropWhile is_ws (rev (dropWhile is_ws s)))"

section \<open>The lap parser (stats.js)\<close>

text \<open>
  \<open>parseLap(value)\<close> takes a string or a number (its documented parameter type), or
  \<open>null\<close>/\<open>undefined\<close>; the result \<open>None\<close> is \<open>null\<close>.
\<close>

datatype lapval = LapUndefined | LapNull | LapStr string | LapNum jsnum

definition parseLap :: "lapval \<Rightarrow> jsnum option" where
  "parseLap v =
     (if v = LapNull \<or> v = LapUndefined \<or> v = LapStr [] then None
      else
        let num = (case v of LapStr s \<Rightarrow> parseFloat s | LapNum n \<Rightarrow> n | _ \<Rightarrow> NaN)
        in if js_isNaN num \<or> js_le num (Fin 0) then None else Some num)"

section \<open>Setup data: nested records of free-form values\<close>

text \<open>
  A value stored in a setup record: a primitive or a plain nested record (arrays and
  other exotic objects do not occur in setup data). \<open>JObj\<close> lists the own properties in
  the order \<open>Object.keys\<close> enumerates them; a lookup takes the first binding of a key.

  The prototype of every record is \<open>Object.prototype\<close>, so a record inherits the
  members of that object. Two more kinds of value are what reading an inherited member
  yields: \<open>JFun name\<close> is the built-in function that \<open>Object.prototype\<close> holds under
  \<open>name\<close> (one function for each name), and \<open>JProto\<close> is the object \<open>Object.prototype\<close>
  itself, the value of the inherited accessor \<open>__proto__\<close>.
\<close>

datatype jsval =
    JUndefined
  | JNull
  | JBool bool
  | JNum jsnum
  | JStr string
  | JObj "(string \<times> jsval) list"
  | JFun string
  | JProto

fun js_truthy :: "jsval \<Rightarrow> bool" where
  "js_truthy JUndefined = False"
| "js_truthy JNull = False"
| "js_truthy (JBool b) = b"
| "js_truthy (JNum n) = (n \<noteq> NaN \<and> n \<noteq> Fin 0)"
| "js_truthy (JStr s) = (s \<noteq> [])"
| "js_truthy (JObj _) = True"
| "js_truthy (JFun _) = True"
| "js_truthy JProto = True"

text \<open>\<open>a || b\<close>.\<close>

definition js_or :: "jsval \<Rightarrow> jsval \<Rightarrow> jsval" where
  "js_or a b = (if js_truthy a then a else b)"

text \<open>The names under which \<open>Object.prototype\<close> holds a function.\<close>

definition prototype_functions :: "string list" where
  "prototype_functions =
     [''constructor'', ''__defineGetter__'', ''__defineSetter__'', ''hasOwnProperty'',
      ''__lookupGetter__'', ''__lookupSetter__'', ''isPrototypeOf'', ''propertyIsEnumerable'',
      ''toString'', ''valueOf'', ''toLocaleString'']"

text \<open>
  Property access \<open>v.key\<close> and \<open>v[key]\<close>. On a record: its own property, else the
  member inherited from \<open>Object.prototype\<close>, else \<open>undefined\<close>. On \<open>Object.prototype\<close>:
  its own members, of which \<open>__proto__\<close> reads as \<open>null\<close>. The normalizer also reads
  its fixed keys off values that need not be records: a primitive or a built-in function
  has none of those property names, so the access yields \<open>undefined\<close> (and the
  normalizer never reads a property of \<open>null\<close> or \<open>undefined\<close>).
\<close>

fun js_get :: "jsval \<Rightarrow> string \<Rightarrow> jsval" where
  "js_get (JObj kvs) key =
     (case map_of kvs key of
        Some x \<Rightarrow> x
      | None \<Rightarrow>
          if key \<in> set prototype_functions then JFun key
          else if key = ''__proto__'' then JProto
          else JUndefined)"
| "js_get JProto key =
     (if key \<in> set prototype_functions then JFun key
      else if key = ''__proto__'' then JNull
      else JUndefined)"
| "js_get _ key = JUndefined"

text \<open>Truthiness of a nullable string.\<close>

fun truthy :: "string nullable \<Rightarrow> bool" where
  "truthy (Val s) = (s \<noteq> [])"
| "truthy _ = False"

section \<open>The setup normalizer (db.js)\<close>

record car_setup =
  setup_id :: "string nullable"
  setupSchemaVersion :: "jsnum nullable"
  setupData :: jsval

text \<open>\<open>setup.setupSchemaVersion || 1\<close>.\<close>

fun schema_or_1 :: "jsnum nullable \<Rightarrow> jsnum" where
  "schema_or_1 (Val n) = (if n = NaN \<or> n = Fin 0 then Fin 1 else n)"
| "schema_or_1 _ = Fin 1"

text \<open>One leaf of the object literal: \<open>group.key || ''\<close>.\<close>

definition leaf_or_empty :: "jsval \<Rightarrow> string \<Rightarrow> jsval" where
  "leaf_or_empty grp key = js_or (js_get grp key) (JStr [])"

text \<open>The assignment \<open>norm.group.key = v\<close> on the object literal built below.\<close>

fun set_prop :: "(string \<times> jsval) list \<Rightarrow> string \<Rightarrow> jsval \<Rightarrow> (string \<times> jsval) list" where
  "set_prop [] key v = [(key, v)]"
| "set_prop ((k, x) # kvs) key v = (if k = key then (k, v) # kvs else (k, x) # set_prop kvs key v)"

fun assign2 :: "jsval \<Rightarrow> string \<Rightarrow> string \<Rightarrow> jsval \<Rightarrow> jsval" where
  "assign2 (JObj kvs) grp key v =
     (case js_get (JObj kvs) grp of
        JObj gkvs \<Rightarrow> JObj (set_prop kvs grp (JObj (set_prop gkvs key v)))
      | _ \<Rightarrow> JObj kvs)"
| "assign2 x grp key v = x"

definition norm_literal :: "jsval \<Rightarrow> jsval" where
  "norm_literal data =
     (let chassis = js_or (js_get data ''chassis'') (JObj []);
          suspension = js_or (js_get data ''suspension'') (JObj []);
          drivetrain = js_or (js_get data ''drivetrain'') (JObj []);
          tires = js_or (js_get data ''tires'') (JObj []);
          electronics = js_or (js_get data ''electronics'') (JObj []);
          general = js_or (js_get data ''general'') (JObj [])
      in JObj
        [(''chassis'', JObj
           [(''rideHeightF'', leaf_or_empty chassis ''rideHeightF''),
            (''rideHeightR'', leaf_or_empty chassis ''rideHeightR''),
            (''droopF'', leaf_or_empty chassis ''droopF''),
            (''droopR'', leaf_or_empty chassis ''droopR''),
            (''weightBalanceNotes'', leaf_or_empty chassis ''weightBalanceNotes'')]),
         (''suspension'', JObj
           [(''springsF'', leaf_or_empty suspension ''springsF''),
            (''springsR'', leaf_or_empty suspension ''springsR''),
            (''pistonsF'', leaf_or_empty suspension ''pistonsF''),
            (''pistonsR'', leaf_or_empty suspension ''pistonsR''),
            (''shockOilF'', leaf_or_empty suspension ''shockOilF''),
            (''shockOilR'', leaf_or_empty suspension ''shockOilR''),
            (''shockPosF'', leaf_or_empty suspension ''shockPosF''),
            (''shockPosR'', leaf_or_empty suspension ''shockPosR''),
            (''camberF'', leaf_or_empty suspension ''camberF''),
            (''camberR'', leaf_or_empty suspension ''camberR''),
            (''toeF'', leaf_or_empty suspension ''toeF''),
            (''toeR'', leaf_or_empty suspension ''toeR'')]),
         (''drivetrain'', JObj
           [(''pinion'', leaf_or_empty drivetrain ''pinion''),
            (''spur'', leaf_or_empty drivetrain ''spur''),
            (''fdrNotes'', leaf_or_empty drivetrain ''fdrNotes''),
            (''diffType'', leaf_or_empty drivetrain ''diffType''),
            (''diffOilF'', leaf_or_empty drivetrain ''diffOilF''),
            (''diffOilR'', leaf_or_empty drivetrain ''diffOilR''),
            (''centerDiffOil'', leaf_or_empty drivetrain ''centerDiffOil'')]),
         (''tires'', JObj
           [(''tireBrand'', leaf_or_empty tires ''tireBrand''),
            (''tireCompound'', leaf_or_empty tires ''tireCompound''),
            (''insert'', leaf_or_empty tires ''insert''),
            (''sauce'', leaf_or_empty tires ''sauce''),
            (''prepNotes'', leaf_or_empty tires ''prepNotes'')]),
         (''electronics'', JObj
           [(''escProfile'', leaf_or_empty electronics ''escProfile''),
            (''timing'', leaf_or_empty electronics ''timing''),
            (''punch'', leaf_or_empty electronics ''punch''),
            (''motorNotes'', leaf_or_empty electronics ''motorNotes'')]),
         (''general'', JObj
           [(''trackCondition'', leaf_or_empty general ''trackCondition''),
            (''temp'', leaf_or_empty general ''temp''),
            (''notes'', leaf_or_empty general ''notes'')])])"

text \<open>
  One line of the backward-compatibility block:
  \<open>if (data.legacy && !norm.group.key) norm.group.key = data.legacy\<close>.
\<close>

definition map_legacy :: "jsval \<Rightarrow> string \<Rightarrow> string \<Rightarrow> string \<Rightarrow> jsval \<Rightarrow> jsval" where
  "map_legacy data legacy grp key nrm =
     (if js_truthy (js_get data legacy) \<and> \<not> js_truthy (js_get (js_get nrm grp) key)
      then assign2 nrm grp key (js_get data legacy) else nrm)"

definition normalizeSetupData :: "'a car_setup_scheme \<Rightarrow> jsval" where
  "normalizeSetupData s =
     (let data = js_or (setupData s) (JObj []);
          schema = schema_or_1 (setupSchemaVersion s);
          nrm = norm_literal data
      in if js_lt schema (Fin 2) then
           map_legacy data ''shockOil'' ''suspension'' ''shockOilF''
             (map_legacy data ''springs'' ''suspension'' ''springsF''
               (map_legacy data ''rideHeight'' ''chassis'' ''rideHeightF'' nrm))
         else nrm)"

section \<open>The structural diff engine (diff.js)\<close>

text \<open>
  \<open>Object.prototype.toString.call(val) === '[object Object]'\<close>: true of a record and
  of \<open>Object.prototype\<close>, false of a primitive and of a function.
\<close>

fun isPlainObject :: "jsval \<Rightarrow> bool" where
  "isPlainObject (JObj _) = True"
| "isPlainObject JProto = True"
| "isPlainObject _ = False"

fun normalizeValue :: "jsval \<Rightarrow> jsval" where
  "normalizeValue JNull = JStr []"
| "normalizeValue JUndefined = JStr []"
| "normalizeValue (JStr s) = JStr (js_trim s)"
| "normalizeValue v = v"

fun isEmpty :: "jsval \<Rightarrow> bool" where
  "isEmpty (JStr s) = (s = [])"
| "isEmpty JNull = True"
| "isEmpty JUndefined = True"
| "isEmpty _ = False"

text \<open>
  Strict equality \<open>===\<close> of two values that are not records (the only ones compared at
  a leaf): structural, except that NaN equals nothing. Two built-in functions are the
  same function when they have the same name.
\<close>

fun js_strict_eq :: "jsval \<Rightarrow> jsval \<Rightarrow> bool" where
  "js_strict_eq (JNum a) (JNum b) = (\<not> js_isNaN a \<and> a = b)"
| "js_strict_eq (JObj _) _ = False"
| "js_strict_eq _ (JObj _) = False"
| "js_strict_eq a b = (a = b)"

record diff_row =
  path :: string
  group :: string
  aValue :: jsval
  bValue :: jsval
  changed :: bool
  changeType :: string

text \<open>
  The row pushed at a leaf. The display label of a row (\<open>prettyLabelFromPath\<close>) is
  left out of the record: it is a function of the path alone.
\<close>

definition leaf_row :: "jsval \<Rightarrow> jsval \<Rightarrow> string \<Rightarrow> diff_row" where
  "leaf_row valA valB prefix =
     (let normA = normalizeValue valA;
          normB = normalizeValue valB;
          emptyA = isEmpty normA;
          emptyB = isEmpty normB;
          ct = (if emptyA \<and> \<not> emptyB then ''added''
                else if \<not> emptyA \<and> emptyB then ''removed''
                else if \<not> emptyA \<and> \<not> emptyB \<and> \<not> js_strict_eq normA normB then ''modified''
                else ''same'')
      in \<lparr> path = prefix,
           group = takeWhile (\<lambda>c. c \<noteq> CHR ''.'') prefix,
           aValue = normA,
           bValue = normB,
           changed = (ct \<noteq> ''same''),
           changeType = ct \<rparr>)"

text \<open>
  \<open>Object.keys(isObj ? val : {})\<close>: the own enumerable keys, of which
  \<open>Object.prototype\<close> has none.
\<close>

fun keys_of :: "jsval \<Rightarrow> string list" where
  "keys_of (JObj kvs) = map fst kvs"
| "keys_of _ = []"

text \<open>\<open>isObj ? val[key] : undefined\<close>.\<close>

definition child :: "jsval \<Rightarrow> string \<Rightarrow> jsval" where
  "child val key = (if isPlainObject val then js_get val key else JUndefined)"

text \<open>
  \<open>new Set([...keysA, ...keysB])\<close> in iteration order: every key once, at its first
  occurrence.
\<close>

definition key_union :: "jsval \<Rightarrow> jsval \<Rightarrow> string list" where
  "key_union valA valB = rev (remdups (rev (keys_of valA @ keys_of valB)))"

definition join_path :: "string \<Rightarrow> string \<Rightarrow> string" where
  "join_path prefix key = (if prefix \<noteq> [] then prefix @ ''.'' @ key else key)"

function visit :: "string list \<Rightarrow> jsval \<Rightarrow> jsval \<Rightarrow> string \<Rightarrow> diff_row list" where
  "visit ignorePaths valA valB prefix =
     (if isPlainObject valA \<or> isPlainObject valB then
        concat (map (\<lambda>key.
                  if join_path prefix key \<in> set ignorePaths then []
                  else visit ignorePaths (child valA key) (child valB key) (join_path prefix key))
                (key_union valA valB))
      else [leaf_row valA valB prefix])"
  by pat_completeness auto
termination
proof (relation "measure (\<lambda>(ign, a, b, p). size a + size b)")
  fix ignorePaths :: "string list" and valA valB :: jsval and prefix key :: string
  assume k: "key \<in> set (key_union valA valB)"
  have sub: "map_of kvs k = Some (x::jsval) \<Longrightarrow> size x < Suc (size_list (size_prod (\<lambda>_. 0) size) kvs)"
    for kvs k x
    by (induction kvs) (auto split: if_splits)
  have le: "size (child v key) \<le> size v" for v
  proof (cases v)
    case (JObj kvs)
    then show ?thesis
      using sub [of kvs key] by (auto simp: child_def split: option.splits)
  qed (auto simp: child_def)
  have less: "size (child v key) < size v" if "key \<in> set (keys_of v)" for v
  proof (cases v)
    case (JObj kvs)
    with that obtain x where "map_of kvs key = Some x"
      by (cases "map_of kvs key") (auto simp: map_of_eq_None_iff)
    with JObj show ?thesis
      using sub [of kvs key x] by (simp add: child_def)
  qed (use that in auto)
  from k have "key \<in> set (keys_of valA) \<or> key \<in> set (keys_of valB)"
    by (auto simp: key_union_def)
  then show "((ignorePaths, child valA key, child valB key, join_path prefix key),
              (ignorePaths, valA, valB, prefix)) \<in> measure (\<lambda>(ign, a, b, p). size a + size b)"
    using le [of valA] le [of valB] less [of valA] less [of valB]
    by auto
qed simp

declare visit.simps [simp del]

definition diffObjects :: "jsval \<Rightarrow> jsval \<Rightarrow> string list \<Rightarrow> diff_row list" where
  "diffObjects a b ignorePaths =
     filter (\<lambda>r. path r \<noteq> []) (visit ignorePaths (js_or a (JObj [])) (js_or b (JObj [])) [])"

section \<open>The host: dates, number formatting, collation\<close>

text \<open>
  What the code asks of the JavaScript engine and its time zone is a parameter of the
  model. A time value is an integer of milliseconds; \<open>None\<close> is the NaN time value of
  an Invalid Date.
  \<^item> \<open>Date_parse s\<close>: the time value of \<open>new Date(s)\<close> for a string \<open>s\<close>;
  \<^item> \<open>Date_local y m d\<close>: the time value of \<open>new Date(y, m, d)\<close> (local time, month from 0);
  \<^item> \<open>end_of_day t\<close>: the time value after \<open>setHours(23, 59, 59, 999)\<close>;
  \<^item> \<open>getFullYear\<close>, \<open>getMonth\<close>, \<open>getDate\<close>: the local calendar fields of a valid date;
  \<^item> \<open>toISOString\<close>: the UTC text of a valid date;
  \<^item> \<open>toFixed3 n\<close>: \<open>n.toFixed(3)\<close>;
  \<^item> \<open>localeCompare a b\<close>: \<open>a.localeCompare(b)\<close>.
\<close>

record js_host =
  Date_parse :: "string \<Rightarrow> int option"
  Date_local :: "int \<Rightarrow> int \<Rightarrow> int \<Rightarrow> int option"
  end_of_day :: "int \<Rightarrow> int option"
  getFullYear :: "int \<Rightarrow> int"
  getMonth :: "int \<Rightarrow> int"
  getDate :: "int \<Rightarrow> int"
  toISOString :: "int \<Rightarrow> string"
  toFixed3 :: "jsnum \<Rightarrow> string"
  localeCompare :: "string \<Rightarrow> string \<Rightarrow> int"

text \<open>\<open>new Date(v)\<close> for a string, \<open>null\<close> (the epoch) or \<open>undefined\<close> (invalid).\<close>

fun new_Date :: "js_host \<Rightarrow> string nullable \<Rightarrow> int option" where
  "new_Date h (Val s) = Date_parse h s"
| "new_Date h Null = Some 0"
| "new_Date h Undefined = None"

text \<open>\<open>a < b\<close> and \<open>a - b\<close> on dates: through their time values, NaN for an invalid one.\<close>

fun time_lt :: "int option \<Rightarrow> int option \<Rightarrow> bool" where
  "time_lt (Some a) (Some b) = (a < b)"
| "time_lt _ _ = False"

fun time_diff :: "int option \<Rightarrow> int option \<Rightarrow> int option" where
  "time_diff (Some a) (Some b) = Some (a - b)"
| "time_diff _ _ = None"

text \<open>
  \<open>Array.prototype.sort(cmp)\<close>: a stable sort; a NaN result of the comparator counts
  as 0. For a comparator that is not a consistent order the engine's result is
  implementation-defined; the model then gives the result of inserting from the right.
\<close>

fun cmp_pos :: "int option \<Rightarrow> bool" where
  "cmp_pos (Some v) = (0 < v)"
| "cmp_pos None = False"

fun js_insort :: "('a \<Rightarrow> 'a \<Rightarrow> int option) \<Rightarrow> 'a \<Rightarrow> 'a list \<Rightarrow> 'a list" where
  "js_insort cmp a [] = [a]"
| "js_insort cmp a (b # bs) = (if cmp_pos (cmp a b) then b # js_insort cmp a bs else a # b # bs)"

definition js_sort :: "('a \<Rightarrow> 'a \<Rightarrow> int option) \<Rightarrow> 'a list \<Rightarrow> 'a list" where
  "js_sort cmp xs = foldr (js_insort cmp) xs []"

text \<open>Decimal text of an integer, and \<open>padStart(2, '0')\<close>.\<close>

definition digit_char :: "nat \<Rightarrow> char" where
  "digit_char d = ''0123456789'' ! (d mod 10)"

function show_nat :: "nat \<Rightarrow> string" where
  "show_nat n = (if n < 10 then [digit_char n] else show_nat (n div 10) @ [digit_char n])"
  by pat_completeness auto
termination
  by (relation "measure id") auto

declare show_nat.simps [simp del]

definition show_int :: "int \<Rightarrow> string" where
  "show_int i = (if i < 0 then CHR ''-'' # show_nat (nat (- i)) else show_nat (nat i))"

definition pad2 :: "string \<Rightarrow> string" where
  "pad2 s = replicate (2 - length s) CHR ''0'' @ s"

section \<open>Date helpers of stats.js\<close>

definition withinDateRange :: "js_host \<Rightarrow> string nullable \<Rightarrow> string nullable \<Rightarrow> string nullable \<Rightarrow> bool" where
  "withinDateRange h dateStr startStr endStr =
     (if \<not> truthy dateStr then False
      else
        let date = new_Date h dateStr in
        if truthy startStr \<and> time_lt date (new_Date h startStr) then False
        else if truthy endStr \<and>
                time_lt (case new_Date h endStr of None \<Rightarrow> None | Some t \<Rightarrow> end_of_day h t) date
        then False
        else True)"

text \<open>The test \<open>/^\d{4}-\d{2}-\d{2}$/\<close>.\<close>

definition is_ymd :: "string \<Rightarrow> bool" where
  "is_ymd s =
     (length s = 10 \<and> list_all is_digit (take 4 s) \<and> s ! 4 = CHR ''-'' \<and>
      list_all is_digit (take 2 (drop 5 s)) \<and> s ! 7 = CHR ''-'' \<and>
      list_all is_digit (drop 8 s))"

text \<open>\<open>dateKeyFromLocal\<close>; the result \<open>None\<close> is \<open>null\<close>.\<close>

definition dateKeyFromLocal :: "js_host \<Rightarrow> string nullable \<Rightarrow> string option" where
  "dateKeyFromLocal h dateStr =
     (case dateStr of
        Val s \<Rightarrow>
          if s = [] then None
          else
            let d = (if is_ymd s
                     then Date_local h (int (digits_val (take 4 s)))
                            (int (digits_val (take 2 (drop 5 s))) - 1)
                            (int (digits_val (drop 8 s)))
                     else Date_parse h s)
            in (case d of
                  None \<Rightarrow> None
                | Some t \<Rightarrow>
                    Some (show_int (getFullYear h t) @ ''-'' @
                          pad2 (show_int (getMonth h t + 1)) @ ''-'' @
                          pad2 (show_int (getDate h t))))
      | _ \<Rightarrow> None)"

section \<open>Records of the data model\<close>

record event =
  e_id :: "string nullable"
  e_trackId :: "string nullable"
  e_date :: "string nullable"

record track =
  t_id :: "string nullable"
  t_name :: "string nullable"

record runlog =
  run_id :: "string nullable"
  eventId :: "string nullable"
  carId :: "string nullable"
  sessionType :: "string nullable"
  setupId :: "string nullable"
  bestLap :: lapval
  avgLap :: lapval
  createdAt :: "string nullable"

text \<open>The enriched run built by \<open>loadAnalyticsData\<close>.\<close>

record enriched_run = runlog +
  eventDate :: "string nullable"
  trackId :: "string nullable"
  bestLapNum :: "jsnum option"
  avgLapNum :: "jsnum option"

record filters =
  f_carId :: "string nullable"
  f_trackId :: "string nullable"
  f_dateFrom :: "string nullable"
  f_dateTo :: "string nullable"
  f_sessionType :: "string nullable"

record kpi_values =
  bestLapMin :: "jsnum option"
  avgLapMean :: "jsnum option"
  runCount :: nat
  eventCount :: nat

record trend_point =
  tp_x :: string
  tp_bestLap :: "jsnum option"
  tp_avgLap :: "jsnum option"

record track_summary =
  ts_trackId :: "string nullable"
  ts_trackName :: "string nullable"
  ts_bestLapMin :: "jsnum option"
  ts_avgLapMean :: "jsnum option"
  ts_runCount :: nat

record 'r agg_result =
  filteredRuns :: "'r list"
  kpis :: kpi_values
  trendSeries :: "trend_point list"
  byTrack :: "track_summary list"

text \<open>The exceptions that the code can throw.\<close>

datatype js_error = RangeError | TypeError

section \<open>The run aggregator (stats.js)\<close>

text \<open>\<open>xs.filter(lap => lap !== null)\<close> on the parsed laps.\<close>

fun non_null :: "'a option list \<Rightarrow> 'a list" where
  "non_null [] = []"
| "non_null (None # xs) = non_null xs"
| "non_null (Some x # xs) = x # non_null xs"

text \<open>\<open>xs.reduce((sum, lap) => sum + lap, 0) / xs.length\<close>.\<close>

definition mean_of :: "jsnum list \<Rightarrow> jsnum" where
  "mean_of xs = js_div (reduce_sum xs) (Fin (real (length xs)))"

definition calculateKPIs :: "('a runlog_scheme) list \<Rightarrow> kpi_values" where
  "calculateKPIs runs =
     (let bestLapTimes = non_null (map (\<lambda>run. parseLap (bestLap run)) runs);
          avgLapTimes = non_null (map (\<lambda>run. parseLap (avgLap run)) runs)
      in \<lparr> bestLapMin = (if bestLapTimes \<noteq> [] then Some (Math_min bestLapTimes) else None),
           avgLapMean = (if avgLapTimes \<noteq> [] then Some (mean_of avgLapTimes)
                         else if bestLapTimes \<noteq> [] then Some (mean_of bestLapTimes)
                         else None),
           runCount = length runs,
           eventCount = length (remdups (filter truthy (map eventId runs))) \<rparr>)"

text \<open>
  An object literal \<open>{}\<close> used as a dictionary is the association list of its own
  properties, in the order of their creation. Two things set it apart from a map. A read
  \<open>obj[k]\<close> under a key that the object does not own falls through to
  \<open>Object.prototype\<close>: under an inherited name it yields a built-in function or
  \<open>Object.prototype\<close> itself, which is truthy. And \<open>Object.entries\<close> and \<open>Object.values\<close>
  enumerate first the keys that are array indices (the canonical decimal numerals below
  \<open>2^32 - 1\<close>), in ascending numeric order, and then the other keys in the order of their
  creation.
\<close>

definition inherited_name :: "string \<Rightarrow> bool" where
  "inherited_name k = (k \<in> set prototype_functions \<or> k = ''__proto__'')"

definition index_value :: "string \<Rightarrow> int" where
  "index_value k =
     foldl (\<lambda>acc c. 10 * acc + (case digit_val c of Some d \<Rightarrow> int d | None \<Rightarrow> 0)) 0 k"

definition array_index :: "string \<Rightarrow> bool" where
  "array_index k =
     (k \<noteq> [] \<and> list_all is_digit k \<and> (length k = 1 \<or> hd k \<noteq> CHR ''0'')
      \<and> index_value k < 4294967295)"

definition own_entries :: "(string \<times> 'v) list \<Rightarrow> (string \<times> 'v) list" where
  "own_entries kvs =
     sort_key (\<lambda>e. index_value (fst e)) (filter (\<lambda>e. array_index (fst e)) kvs)
     @ filter (\<lambda>e. \<not> array_index (fst e)) kvs"

text \<open>
  Grouping into a dictionary: \<open>if (!obj[k]) obj[k] = []; obj[k].push(r)\<close>. Under an
  inherited name that the dictionary does not own, \<open>obj[k]\<close> is truthy and has no method
  \<open>push\<close>: the call throws a TypeError.
\<close>

fun push_group :: "string \<Rightarrow> 'r \<Rightarrow> (string \<times> 'r list) list \<Rightarrow> (string \<times> 'r list) list" where
  "push_group k r [] = [(k, [r])]"
| "push_group k r ((k', rs) # g) =
     (if k = k' then (k', rs @ [r]) # g else (k', rs) # push_group k r g)"

definition dict_push ::
  "string \<Rightarrow> 'r \<Rightarrow> (string \<times> 'r list) list \<Rightarrow> js_error + (string \<times> 'r list) list" where
  "dict_push k r obj =
     (if map_of obj k = None \<and> inherited_name k then Inl TypeError
      else Inr (push_group k r obj))"

text \<open>
  The day key of one run in \<open>buildTrendSeries\<close>: \<open>Inr None\<close> when the run is skipped,
  \<open>Inl RangeError\<close> when \<open>toISOString\<close> throws on an Invalid Date. A \<open>null\<close> from
  \<open>dateKeyFromLocal\<close> becomes the property name \<open>null\<close>: the code does not test for it.
\<close>

definition run_date_key :: "js_host \<Rightarrow> event list \<Rightarrow> 'a runlog_scheme \<Rightarrow> js_error + string option" where
  "run_date_key h events run =
     (case (case find (\<lambda>e. e_id e = eventId run) events of
              None \<Rightarrow> None
            | Some e \<Rightarrow> if truthy (e_date e) then Some e else None) of
        Some e \<Rightarrow>
          Inr (Some (case dateKeyFromLocal h (e_date e) of Some k \<Rightarrow> k | None \<Rightarrow> ''null''))
      | None \<Rightarrow>
          if truthy (createdAt run) then
            (case new_Date h (createdAt run) of
               None \<Rightarrow> Inl RangeError
             | Some t \<Rightarrow> Inr (Some (takeWhile (\<lambda>c. c \<noteq> CHR ''T'') (toISOString h t))))
          else Inr None)"

fun group_by_date ::
  "js_host \<Rightarrow> event list \<Rightarrow> ('a runlog_scheme) list \<Rightarrow> (string \<times> ('a runlog_scheme) list) list
     \<Rightarrow> js_error + (string \<times> ('a runlog_scheme) list) list" where
  "group_by_date h events [] acc = Inr acc"
| "group_by_date h events (run # runs) acc =
     (case run_date_key h events run of
        Inl e \<Rightarrow> Inl e
      | Inr None \<Rightarrow> group_by_date h events runs acc
      | Inr (Some k) \<Rightarrow>
          (case dict_push k run acc of
             Inl e \<Rightarrow> Inl e
           | Inr acc' \<Rightarrow> group_by_date h events runs acc'))"

definition trend_point_of :: "string \<times> ('a runlog_scheme) list \<Rightarrow> trend_point" where
  "trend_point_of entry =
     (let bestLaps = non_null (map (\<lambda>r. parseLap (bestLap r)) (snd entry));
          avgLaps = non_null (map (\<lambda>r. parseLap (avgLap r)) (snd entry))
      in \<lparr> tp_x = fst entry,
           tp_bestLap = (if bestLaps \<noteq> [] then Some (Math_min bestLaps) else None),
           tp_avgLap = (if avgLaps \<noteq> [] then Some (mean_of avgLaps) else None) \<rparr>)"

definition buildTrendSeries ::
  "js_host \<Rightarrow> ('a runlog_scheme) list \<Rightarrow> event list \<Rightarrow> js_error + trend_point list" where
  "buildTrendSeries h runs events =
     (case group_by_date h events runs [] of
        Inl e \<Rightarrow> Inl e
      | Inr runsByDate \<Rightarrow>
          Inr (js_sort (\<lambda>a b. time_diff (Date_parse h (tp_x a)) (Date_parse h (tp_x b)))
                 (map trend_point_of (own_entries runsByDate))))"

record track_data =
  td_trackId :: "string nullable"
  td_trackName :: "string nullable"
  td_bestLaps :: "jsnum list"
  td_avgLaps :: "jsnum list"
  td_runCount :: nat

text \<open>The text of a value used as a property name or in a template string.\<close>

fun to_text :: "string nullable \<Rightarrow> string" where
  "to_text (Val s) = s"
| "to_text Null = ''null''"
| "to_text Undefined = ''undefined''"

text \<open>
  The body of the loop of \<open>calculateByTrack\<close> for a run whose track is found: the entry
  \<open>trackData[track.id]\<close> is created when the read is falsy, and then updated.
\<close>

fun update_track_data ::
  "track \<Rightarrow> 'a runlog_scheme \<Rightarrow> (string \<times> track_data) list \<Rightarrow> (string \<times> track_data) list" where
  "update_track_data t run [] =
     [(to_text (t_id t),
       \<lparr> td_trackId = t_id t, td_trackName = t_name t,
         td_bestLaps = non_null [parseLap (bestLap run)],
         td_avgLaps = non_null [parseLap (avgLap run)],
         td_runCount = 1 \<rparr>)]"
| "update_track_data t run ((k, td) # g) =
     (if k = to_text (t_id t)
      then (k, td \<lparr> td_bestLaps := td_bestLaps td @ non_null [parseLap (bestLap run)],
                     td_avgLaps := td_avgLaps td @ non_null [parseLap (avgLap run)],
                     td_runCount := td_runCount td + 1 \<rparr>) # g
      else (k, td) # update_track_data t run g)"

text \<open>
  When the track id is an inherited name, \<open>trackData[track.id]\<close> is a built-in object:
  no entry is created, \<open>trackData[track.id].bestLaps\<close> is \<open>undefined\<close> and pushing a
  valid lap onto it throws a TypeError. With no valid lap the run only writes
  \<open>runCount\<close> onto the built-in object, which leaves the dictionary as it is (that write
  is not modelled).
\<close>

definition add_track_run ::
  "track \<Rightarrow> 'a runlog_scheme \<Rightarrow> (string \<times> track_data) list
     \<Rightarrow> js_error + (string \<times> track_data) list" where
  "add_track_run t run trackData =
     (if map_of trackData (to_text (t_id t)) = None \<and> inherited_name (to_text (t_id t)) then
        (if parseLap (bestLap run) \<noteq> None \<or> parseLap (avgLap run) \<noteq> None then Inl TypeError
         else Inr trackData)
      else Inr (update_track_data t run trackData))"

fun collect_tracks ::
  "event list \<Rightarrow> track list \<Rightarrow> ('a runlog_scheme) list \<Rightarrow> (string \<times> track_data) list
     \<Rightarrow> js_error + (string \<times> track_data) list" where
  "collect_tracks events tracks [] acc = Inr acc"
| "collect_tracks events tracks (run # runs) acc =
     (case find (\<lambda>e. e_id e = eventId run) events of
        None \<Rightarrow> collect_tracks events tracks runs acc
      | Some ev \<Rightarrow>
          if \<not> truthy (e_trackId ev) then collect_tracks events tracks runs acc
          else (case find (\<lambda>t. t_id t = e_trackId ev) tracks of
                  None \<Rightarrow> collect_tracks events tracks runs acc
                | Some t \<Rightarrow>
                    (case add_track_run t run acc of
                       Inl e \<Rightarrow> Inl e
                     | Inr acc' \<Rightarrow> collect_tracks events tracks runs acc')))"

definition track_summary_of :: "track_data \<Rightarrow> track_summary" where
  "track_summary_of td =
     \<lparr> ts_trackId = td_trackId td,
       ts_trackName = td_trackName td,
       ts_bestLapMin = (if td_bestLaps td \<noteq> [] then Some (Math_min (td_bestLaps td)) else None),
       ts_avgLapMean = (if td_avgLaps td \<noteq> [] then Some (mean_of (td_avgLaps td)) else None),
       ts_runCount = td_runCount td \<rparr>"

text \<open>\<open>name || ''\<close>.\<close>

fun or_empty :: "string nullable \<Rightarrow> string" where
  "or_empty (Val s) = s"
| "or_empty _ = []"

definition calculateByTrack ::
  "js_host \<Rightarrow> ('a runlog_scheme) list \<Rightarrow> event list \<Rightarrow> track list
     \<Rightarrow> js_error + track_summary list" where
  "calculateByTrack h runs events tracks =
     (case collect_tracks events tracks runs [] of
        Inl e \<Rightarrow> Inl e
      | Inr trackData \<Rightarrow>
          Inr (js_sort (\<lambda>a b. Some (localeCompare h (or_empty (ts_trackName a))
                                                      (or_empty (ts_trackName b))))
                 (map (\<lambda>entry. track_summary_of (snd entry)) (own_entries trackData))))"

text \<open>The callback of \<open>runs.filter\<close> in \<open>aggregateRuns\<close>.\<close>

definition run_passes :: "js_host \<Rightarrow> event list \<Rightarrow> filters \<Rightarrow> 'a runlog_scheme \<Rightarrow> bool" where
  "run_passes h events fs run =
     (if truthy (f_carId fs) \<and> carId run \<noteq> f_carId fs then False
      else if truthy (f_trackId fs) \<and>
              (case find (\<lambda>e. e_id e = eventId run) events of
                 None \<Rightarrow> True
               | Some ev \<Rightarrow> e_trackId ev \<noteq> f_trackId fs)
      then False
      else if (truthy (f_dateFrom fs) \<or> truthy (f_dateTo fs)) \<and>
              \<not> withinDateRange h (createdAt run) (f_dateFrom fs) (f_dateTo fs)
      then False
      else if truthy (f_sessionType fs) \<and> sessionType run \<noteq> f_sessionType fs then False
      else True)"

text \<open>
  \<open>aggregateRuns({runs, events, tracks, cars, filters})\<close>; \<open>cars\<close> is not read. The result
  is \<open>Inl\<close> when building the trend series or the per-track summary throws.
\<close>

definition aggregateRuns ::
  "js_host \<Rightarrow> ('a runlog_scheme) list \<Rightarrow> event list \<Rightarrow> track list \<Rightarrow> filters
     \<Rightarrow> js_error + ('a runlog_scheme) agg_result" where
  "aggregateRuns h runs events tracks fs =
     (let filtered = filter (run_passes h events fs) runs;
          k = calculateKPIs filtered
      in (case buildTrendSeries h filtered events of
            Inl e \<Rightarrow> Inl e
          | Inr ts \<Rightarrow>
              (case calculateByTrack h filtered events tracks of
                 Inl e \<Rightarrow> Inl e
               | Inr bt \<Rightarrow>
                   Inr \<lparr> filteredRuns = filtered, kpis = k, trendSeries = ts, byTrack = bt \<rparr>)))"

section \<open>The setup-change correlator (sw.js)\<close>

record comparison =
  cmp_date :: "string nullable"
  cmp_trackName :: "string nullable"
  changeCount :: nat
  bestLapDelta :: jsnum
  cmp_notes :: string

text \<open>Truthiness of \<open>run.bestLapNum\<close>, and its value as an operand of \<open>-\<close>.\<close>

fun num_truthy :: "jsnum option \<Rightarrow> bool" where
  "num_truthy (Some n) = (n \<noteq> NaN \<and> n \<noteq> Fin 0)"
| "num_truthy None = False"

fun num_of :: "jsnum option \<Rightarrow> jsnum" where
  "num_of (Some n) = n"
| "num_of None = Fin 0"

text \<open>\<open>a || b\<close> on nullable strings.\<close>

definition or_else :: "string nullable \<Rightarrow> string nullable \<Rightarrow> string nullable" where
  "or_else a b = (if truthy a then a else b)"

text \<open>\<open>map.get(id)\<close> on a \<open>Map\<close> keyed by the records' string ids.\<close>

fun map_get :: "(string \<rightharpoonup> 'v) \<Rightarrow> string nullable \<Rightarrow> 'v option" where
  "map_get m (Val s) = m s"
| "map_get m _ = None"

text \<open>The key \<open>`${run.carId}_${run.trackId || 'unknown'}`\<close>.\<close>

definition car_track_key :: "'a enriched_run_scheme \<Rightarrow> string" where
  "car_track_key run = to_text (carId run) @ ''_'' @ to_text (or_else (trackId run) (Val ''unknown''))"

fun group_by_car_track ::
  "('a enriched_run_scheme) list \<Rightarrow> (string \<times> ('a enriched_run_scheme) list) list
     \<Rightarrow> js_error + (string \<times> ('a enriched_run_scheme) list) list" where
  "group_by_car_track [] acc = Inr acc"
| "group_by_car_track (run # runs) acc =
     (if \<not> truthy (setupId run) \<or> \<not> num_truthy (bestLapNum run)
      then group_by_car_track runs acc
      else (case dict_push (car_track_key run) run acc of
              Inl e \<Rightarrow> Inl e
            | Inr acc' \<Rightarrow> group_by_car_track runs acc'))"

text \<open>
  One pass of the loop body for the adjacent pair (previousRun, currentRun): \<open>None\<close>
  when the pair is skipped by a \<open>continue\<close>.
\<close>

definition compare_pair ::
  "js_host \<Rightarrow> (string \<rightharpoonup> 'b car_setup_scheme) \<Rightarrow> (string \<rightharpoonup> track)
     \<Rightarrow> 'a enriched_run_scheme \<Rightarrow> 'a enriched_run_scheme \<Rightarrow> comparison option" where
  "compare_pair h setupsById tracksById previousRun currentRun =
     (if setupId currentRun = setupId previousRun then None
      else
        (case (map_get setupsById (setupId currentRun), map_get setupsById (setupId previousRun)) of
           (Some currentSetup, Some previousSetup) \<Rightarrow>
             let diff = diffObjects (normalizeSetupData previousSetup)
                          (normalizeSetupData currentSetup) [];
                 cnt = length (filter (\<lambda>d. changeType d \<noteq> ''none'') diff);
                 delta = js_sub (num_of (bestLapNum currentRun)) (num_of (bestLapNum previousRun));
                 trackName = (case map_get tracksById (trackId currentRun) of
                                Some t \<Rightarrow> t_name t
                              | None \<Rightarrow> Val ''Unknown Track'');
                 note = (if js_lt delta (Fin 0)
                         then ''Improved by '' @ toFixed3 h (js_abs delta) @ ''s''
                         else if js_lt (Fin 0) delta
                         then ''Slower by '' @ toFixed3 h delta @ ''s''
                         else ''No change'')
             in Some \<lparr> cmp_date = or_else (eventDate currentRun) (createdAt currentRun),
                        cmp_trackName = trackName,
                        changeCount = cnt,
                        bestLapDelta = delta,
                        cmp_notes = note \<rparr>
         | _ \<Rightarrow> None))"

text \<open>The loop \<open>for (i = 1; i < carTrackRuns.length; i++)\<close> over adjacent pairs.\<close>

fun compare_adjacent ::
  "js_host \<Rightarrow> (string \<rightharpoonup> 'b car_setup_scheme) \<Rightarrow> (string \<rightharpoonup> track)
     \<Rightarrow> 'a enriched_run_scheme \<Rightarrow> ('a enriched_run_scheme) list \<Rightarrow> comparison list" where
  "compare_adjacent h setupsById tracksById previousRun [] = []"
| "compare_adjacent h setupsById tracksById previousRun (currentRun # rest) =
     (case compare_pair h setupsById tracksById previousRun currentRun of
        None \<Rightarrow> []
      | Some c \<Rightarrow> [c])
     @ compare_adjacent h setupsById tracksById currentRun rest"

definition compare_group ::
  "js_host \<Rightarrow> (string \<rightharpoonup> 'b car_setup_scheme) \<Rightarrow> (string \<rightharpoonup> track)
     \<Rightarrow> ('a enriched_run_scheme) list \<Rightarrow> comparison list" where
  "compare_group h setupsById tracksById carTrackRuns =
     (case js_sort (\<lambda>a b. time_diff (new_Date h (or_else (eventDate a) (createdAt a)))
                                       (new_Date h (or_else (eventDate b) (createdAt b))))
             carTrackRuns of
        [] \<Rightarrow> []
      | first # rest \<Rightarrow> compare_adjacent h setupsById tracksById first rest)"

text \<open>
  The \<open>comparisons\<close> of \<open>analyzeSetupChanges(runs, {setupsById, tracksById})\<close>, or the
  exception thrown while grouping the runs. The second component of the result, the
  insight sentences computed from this list, is not modelled.
\<close>

definition analyzeSetupChanges ::
  "js_host \<Rightarrow> ('a enriched_run_scheme) list \<Rightarrow> (string \<rightharpoonup> 'b car_setup_scheme)
     \<Rightarrow> (string \<rightharpoonup> track) \<Rightarrow> js_error + comparison list" where
  "analyzeSetupChanges h runs setupsById tracksById =
     (case group_by_car_track runs [] of
        Inl e \<Rightarrow> Inl e
      | Inr runsByCarTrack \<Rightarrow>
          Inr (concat (map (\<lambda>entry. compare_group h setupsById tracksById (snd entry))
                         (own_entries runsByCarTrack))))"

section \<open>An example host\<close>

text \<open>
  A host in the UTC time zone that reads the ISO formats \<open>YYYY-MM-DD\<close> and
  \<open>YYYY-MM-DDTHH:MM:SS[.sss]Z\<close> with valid calendar fields (every other string is an
  Invalid Date), formats numbers by rounding the real value, and collates by character
  code. It instantiates the host wherever a closed example needs one.
\<close>

definition days_from_civil :: "int \<Rightarrow> int \<Rightarrow> int \<Rightarrow> int" where
  "days_from_civil y m d =
     (let y' = (if m \<le> 2 then y - 1 else y);
          era = y' div 400;
          yoe = y' - era * 400;
          mp = (m + 9) mod 12;
          doy = (153 * mp + 2) div 5 + d - 1;
          doe = yoe * 365 + yoe div 4 - yoe div 100 + doy
      in era * 146097 + doe - 719468)"

definition civil_from_days :: "int \<Rightarrow> int \<times> int \<times> int" where
  "civil_from_days z =
     (let z' = z + 719468;
          era = z' div 146097;
          doe = z' - era * 146097;
          yoe = (doe - doe div 1460 + doe div 36524 - doe div 146096) div 365;
          doy = doe - (365 * yoe + yoe div 4 - yoe div 100);
          mp = (5 * doy + 2) div 153;
          d = doy - (153 * mp + 2) div 5 + 1;
          m = (if mp < 10 then mp + 3 else mp - 9);
          y = yoe + era * 400 + (if m \<le> 2 then 1 else 0)
      in (y, m, d))"

definition ms_per_day :: int where
  "ms_per_day = 86400000"

definition num_at :: "string \<Rightarrow> nat \<Rightarrow> nat \<Rightarrow> int" where
  "num_at s i n = int (digits_val (take n (drop i s)))"

definition digits_at :: "string \<Rightarrow> nat \<Rightarrow> nat \<Rightarrow> bool" where
  "digits_at s i n = (i + n \<le> length s \<and> list_all is_digit (take n (drop i s)))"

definition iso_date_ok :: "string \<Rightarrow> bool" where
  "iso_date_ok s =
     (digits_at s 0 4 \<and> digits_at s 5 2 \<and> digits_at s 8 2 \<and>
      take 1 (drop 4 s) = ''-'' \<and> take 1 (drop 7 s) = ''-'' \<and>
      1 \<le> num_at s 5 2 \<and> num_at s 5 2 \<le> 12 \<and> 1 \<le> num_at s 8 2 \<and>
      civil_from_days (days_from_civil (num_at s 0 4) (num_at s 5 2) (num_at s 8 2))
        = (num_at s 0 4, num_at s 5 2, num_at s 8 2))"

definition iso_time_ok :: "string \<Rightarrow> bool" where
  "iso_time_ok s =
     (take 1 (drop 10 s) = ''T'' \<and> digits_at s 11 2 \<and> take 1 (drop 13 s) = '':'' \<and>
      digits_at s 14 2 \<and> take 1 (drop 16 s) = '':'' \<and> digits_at s 17 2 \<and>
      num_at s 11 2 < 24 \<and> num_at s 14 2 < 60 \<and> num_at s 17 2 < 60 \<and>
      (drop 19 s = ''Z'' \<or>
       (take 1 (drop 19 s) = ''.'' \<and> digits_at s 20 3 \<and> drop 23 s = ''Z'')))"

definition utc_parse :: "string \<Rightarrow> int option" where
  "utc_parse s =
     (if iso_date_ok s \<and> length s = 10 then
        Some (days_from_civil (num_at s 0 4) (num_at s 5 2) (num_at s 8 2) * ms_per_day)
      else if iso_date_ok s \<and> iso_time_ok s then
        Some (days_from_civil (num_at s 0 4) (num_at s 5 2) (num_at s 8 2) * ms_per_day
              + num_at s 11 2 * 3600000 + num_at s 14 2 * 60000 + num_at s 17 2 * 1000
              + (if length s = 24 then num_at s 20 3 else 0))
      else None)"

definition utc_local :: "int \<Rightarrow> int \<Rightarrow> int \<Rightarrow> int option" where
  "utc_local y m d =
     (let y' = (if 0 \<le> y \<and> y \<le> 99 then 1900 + y else y)
      in Some ((days_from_civil (y' + m div 12) (m mod 12 + 1) 1 + d - 1) * ms_per_day))"

definition pad_left :: "nat \<Rightarrow> string \<Rightarrow> string" where
  "pad_left n s = replicate (n - length s) CHR ''0'' @ s"

definition utc_iso_string :: "int \<Rightarrow> string" where
  "utc_iso_string t =
     (let ymd = civil_from_days (t div ms_per_day);
          r = t mod ms_per_day;
          y = fst ymd
      in (if 0 \<le> y \<and> y \<le> 9999 then pad_left 4 (show_int y)
          else (if y < 0 then ''-'' else ''+'') @ pad_left 6 (show_int \<bar>y\<bar>))
         @ ''-'' @ pad_left 2 (show_int (fst (snd ymd)))
         @ ''-'' @ pad_left 2 (show_int (snd (snd ymd)))
         @ ''T'' @ pad_left 2 (show_int (r div 3600000))
         @ '':'' @ pad_left 2 (show_int (r mod 3600000 div 60000))
         @ '':'' @ pad_left 2 (show_int (r mod 60000 div 1000))
         @ ''.'' @ pad_left 3 (show_int (r mod 1000)) @ ''Z'')"

definition real_toFixed3 :: "jsnum \<Rightarrow> string" where
  "real_toFixed3 n =
     (case n of
        NaN \<Rightarrow> ''NaN''
      | PosInf \<Rightarrow> ''Infinity''
      | NegInf \<Rightarrow> ''-Infinity''
      | Fin r \<Rightarrow>
          (let k = nat \<lfloor>\<bar>r\<bar> * 1000 + 1 / 2\<rfloor>
           in (if r < 0 then ''-'' else [])
              @ show_nat (k div 1000) @ ''.'' @ pad_left 3 (show_nat (k mod 1000))))"

fun code_compare :: "string \<Rightarrow> string \<Rightarrow> int" where
  "code_compare [] [] = 0"
| "code_compare [] (b # bs) = - 1"
| "code_compare (a # as) [] = 1"
| "code_compare (a # as) (b # bs) =
     (if (of_char a :: nat) < of_char b then - 1
      else if (of_char b :: nat) < of_char a then 1
      else code_compare as bs)"

definition utc_host :: js_host where
  "utc_host =
     \<lparr> Date_parse = utc_parse,
       Date_local = utc_local,
       end_of_day = (\<lambda>t. Some (t div ms_per_day * ms_per_day + 86399999)),
       getFullYear = (\<lambda>t. fst (civil_from_days (t div ms_per_day))),
       getMonth = (\<lambda>t. fst (snd (civil_from_days (t div ms_per_day))) - 1),
       getDate = (\<lambda>t. snd (snd (civil_from_days (t div ms_per_day)))),
       toISOString = utc_iso_string,
       toFixed3 = real_toFixed3,
       localeCompare = code_compare \<rparr>"

section \<open>Specification-side notions\<close>

text \<open>
  The canonical shape of normalized setup data: the six groups and their leaf keys, in
  the order of the object literal, and the record with leaf \<open>f group key\<close> at each.
\<close>

definition norm_schema :: "(string \<times> string list) list" where
  "norm_schema =
     [(''chassis'', [''rideHeightF'', ''rideHeightR'', ''droopF'', ''droopR'', ''weightBalanceNotes'']),
      (''suspension'', [''springsF'', ''springsR'', ''pistonsF'', ''pistonsR'', ''shockOilF'', ''shockOilR'',
                        ''shockPosF'', ''shockPosR'', ''camberF'', ''camberR'', ''toeF'', ''toeR'']),
      (''drivetrain'', [''pinion'', ''spur'', ''fdrNotes'', ''diffType'', ''diffOilF'', ''diffOilR'', ''centerDiffOil'']),
      (''tires'', [''tireBrand'', ''tireCompound'', ''insert'', ''sauce'', ''prepNotes'']),
      (''electronics'', [''escProfile'', ''timing'', ''punch'', ''motorNotes'']),
      (''general'', [''trackCondition'', ''temp'', ''notes''])]"

definition build_norm :: "(string \<Rightarrow> string \<Rightarrow> jsval) \<Rightarrow> jsval" where
  "build_norm f = JObj (map (\<lambda>(g, ks). (g, JObj (map (\<lambda>k. (k, f g k)) ks))) norm_schema)"

text \<open>
  The leaf \<open>group.key\<close> of the normalized record, read off the source: the stored
  value or the empty string, replaced by the legacy flat field for the three front-side
  slots when the schema is below 2, the legacy field is set and the slot is empty.
\<close>

definition final_leaf :: "'a car_setup_scheme \<Rightarrow> string \<Rightarrow> string \<Rightarrow> jsval" where
  "final_leaf s g k =
     (let data = js_or (setupData s) (JObj []);
          v = leaf_or_empty (js_or (js_get data g) (JObj [])) k;
          legacy = (if g = ''chassis'' \<and> k = ''rideHeightF'' then js_get data ''rideHeight''
                    else if g = ''suspension'' \<and> k = ''springsF'' then js_get data ''springs''
                    else if g = ''suspension'' \<and> k = ''shockOilF'' then js_get data ''shockOil''
                    else JUndefined)
      in if js_lt (schema_or_1 (setupSchemaVersion s)) (Fin 2) \<and> js_truthy legacy \<and> \<not> js_truthy v
         then legacy else v)"

text \<open>
  The space characters that trimming removes from ASCII text: tab, line feed, vertical
  tab, form feed, carriage return and space.
\<close>

definition space_char :: "char \<Rightarrow> bool" where
  "space_char c =
     (c = CHR 0x09 \<or> c = CHR 0x0A \<or> c = CHR 0x0B \<or> c = CHR 0x0C \<or> c = CHR 0x0D \<or> c = CHR 0x20)"

text \<open>
  \<open>t\<close> is \<open>s\<close> trimmed: \<open>s\<close> is \<open>t\<close> between a run of leading and a run of trailing space
  characters, and \<open>t\<close> neither starts nor ends with a space character.
\<close>

definition trims_to :: "string \<Rightarrow> string \<Rightarrow> bool" where
  "trims_to s t =
     (list_ex (\<lambda>i. list_all space_char (take i s) \<and> take (length t) (drop i s) = t
                   \<and> list_all space_char (drop (i + length t) s))
        [0..<Suc (length s)]
      \<and> (case t of [] \<Rightarrow> True | c # _ \<Rightarrow> \<not> space_char c \<and> \<not> space_char (last t)))"

text \<open>
  A leaf value is empty when it is \<open>null\<close>, \<open>undefined\<close> or a string that holds nothing
  but space characters (the empty string, once trimmed).
\<close>

fun blank :: "jsval \<Rightarrow> bool" where
  "blank JNull = True"
| "blank JUndefined = True"
| "blank (JStr s) = list_all space_char s"
| "blank _ = False"

text \<open>
  \<open>n\<close> is the normal form of the leaf value \<open>v\<close>: the empty string for \<open>null\<close> and
  \<open>undefined\<close>, the trimmed string for a string, and \<open>v\<close> itself for any other value.
\<close>

fun normal_form :: "jsval \<Rightarrow> jsval \<Rightarrow> bool" where
  "normal_form JNull n = (n = JStr [])"
| "normal_form JUndefined n = (n = JStr [])"
| "normal_form (JStr s) n = (case n of JStr t \<Rightarrow> trims_to s t | _ \<Rightarrow> False)"
| "normal_form v n = (n = v)"

text \<open>
  Two normal forms are unequal under \<open>!==\<close> when they differ, and also when both are
  NaN.
\<close>

definition unequal :: "jsval \<Rightarrow> jsval \<Rightarrow> bool" where
  "unequal x y = (x = JNum NaN \<or> x \<noteq> y)"

text \<open>
  The value found in \<open>v\<close> by following the key path \<open>ks\<close>, \<open>undefined\<close> where there is
  no record to look into; and the path text that \<open>diffObjects\<close> builds for a key path.
\<close>

fun value_at :: "jsval \<Rightarrow> string list \<Rightarrow> jsval" where
  "value_at v [] = v"
| "value_at v (k # ks) = value_at (child v k) ks"

definition dot_path :: "string list \<Rightarrow> string" where
  "dot_path ks = foldl join_path [] ks"

text \<open>
  The pairs of leaf values that \<open>diffObjects\<close> compares: \<open>compared ign va vb prefix ks\<close>
  says that the key path \<open>ks\<close> leads from the pair \<open>(va, vb)\<close>, reached under the path
  \<open>prefix\<close>, to a pair of leaves. At each step at least one of the two values is a
  plain object, the key is a key of one of them, and the path so far is not an ignored
  one; at the end neither value is a plain object.
\<close>

fun compared :: "string list \<Rightarrow> jsval \<Rightarrow> jsval \<Rightarrow> string \<Rightarrow> string list \<Rightarrow> bool" where
  "compared ign va vb prefix [] = (\<not> isPlainObject va \<and> \<not> isPlainObject vb)"
| "compared ign va vb prefix (k # ks) =
     ((isPlainObject va \<or> isPlainObject vb)
      \<and> (k \<in> set (keys_of va) \<or> k \<in> set (keys_of vb))
      \<and> join_path prefix k \<notin> set ign
      \<and> compared ign (child va k) (child vb k) (join_path prefix k) ks)"

text \<open>
  The row \<open>r\<close> is the classification of the pair of leaf values \<open>va\<close> (left) and \<open>vb\<close>
  (right): it carries their normal forms, its \<open>changeType\<close> is \<open>added\<close> iff the left
  value is empty and the right is not, \<open>removed\<close> iff the left is not empty and the right
  is, \<open>modified\<close> iff neither is empty and the normal forms are unequal, and \<open>same\<close>
  otherwise; and \<open>changed\<close> is true iff \<open>changeType\<close> is not \<open>same\<close>.
\<close>

definition classified :: "diff_row \<Rightarrow> jsval \<Rightarrow> jsval \<Rightarrow> bool" where
  "classified r va vb =
     (normal_form va (aValue r) \<and> normal_form vb (bValue r)
      \<and> (changeType r = ''added'' \<longleftrightarrow> blank va \<and> \<not> blank vb)
      \<and> (changeType r = ''removed'' \<longleftrightarrow> \<not> blank va \<and> blank vb)
      \<and> (changeType r = ''modified'' \<longleftrightarrow>
            \<not> blank va \<and> \<not> blank vb \<and> unequal (aValue r) (bValue r))
      \<and> (changeType r = ''same'' \<longleftrightarrow>
            \<not> (blank va \<and> \<not> blank vb) \<and> \<not> (\<not> blank va \<and> blank vb)
            \<and> \<not> (\<not> blank va \<and> \<not> blank vb \<and> unequal (aValue r) (bValue r)))
      \<and> (changed r \<longleftrightarrow> changeType r \<noteq> ''same''))"

text \<open>
  Lap values are positive numbers, possibly \<open>Infinity\<close>. Their arithmetic mean is the
  sum over the count, and infinite as soon as one of them is.
\<close>

fun is_fin :: "jsnum \<Rightarrow> bool" where
  "is_fin (Fin r) = True"
| "is_fin _ = False"

fun fin_val :: "jsnum \<Rightarrow> real" where
  "fin_val (Fin r) = r"
| "fin_val _ = 0"

definition arith_mean :: "jsnum list \<Rightarrow> jsnum" where
  "arith_mean xs =
     (if list_all is_fin xs then Fin (sum_list (map fin_val xs) / real (length xs)) else PosInf)"

definition lap_pos :: "jsnum \<Rightarrow> bool" where
  "lap_pos n = js_lt (Fin 0) n"

text \<open>
  Text that is a number as a whole: white space, an optional sign, a decimal literal,
  white space, and nothing else. \<open>decimal_rest\<close> is what follows the longest leading
  unsigned decimal literal.
\<close>

definition exponent_rest :: "string \<Rightarrow> string" where
  "exponent_rest r =
     (case r of
        [] \<Rightarrow> []
      | c # t \<Rightarrow>
          if c = CHR ''e'' \<or> c = CHR ''E'' then
            (case t of
               [] \<Rightarrow> r
             | d # u \<Rightarrow>
                 if d = CHR ''+'' \<or> d = CHR ''-'' then
                   (if takeWhile is_digit u = [] then r else dropWhile is_digit u)
                 else if takeWhile is_digit t = [] then r
                 else dropWhile is_digit t)
          else r)"

definition decimal_rest :: "string \<Rightarrow> string option" where
  "decimal_rest s =
     (if take 8 s = ''Infinity'' then Some (drop 8 s)
      else
        let ip = takeWhile is_digit s;
            r1 = dropWhile is_digit s;
            fp = (case r1 of [] \<Rightarrow> [] | c # t \<Rightarrow> if c = CHR ''.'' then takeWhile is_digit t else []);
            r2 = (case r1 of [] \<Rightarrow> [] | c # t \<Rightarrow> if c = CHR ''.'' then dropWhile is_digit t else r1)
        in if ip = [] \<and> fp = [] then None else Some (exponent_rest r2))"

definition number_text :: "string \<Rightarrow> bool" where
  "number_text s =
     (case dropWhile is_ws s of
        [] \<Rightarrow> False
      | c # t \<Rightarrow>
          (case decimal_rest (if c = CHR ''-'' \<or> c = CHR ''+'' then t else c # t) of
             None \<Rightarrow> False
           | Some r \<Rightarrow> dropWhile is_ws r = []))"

section \<open>Example data\<close>

text \<open>
  Two setups of one car: B changes the front springs of A from 4.4 to 4.6 and adds a
  front ride height. Two legacy (schema 1) setups with the flat field \<open>rideHeight\<close>.
\<close>

definition setupA :: car_setup where
  "setupA = \<lparr> setup_id = Val ''sA'', setupSchemaVersion = Val (Fin 2),
      setupData = JObj [(''suspension'', JObj [(''springsF'', JStr ''4.4'')])] \<rparr>"

definition setupB :: car_setup where
  "setupB = \<lparr> setup_id = Val ''sB'', setupSchemaVersion = Val (Fin 2),
      setupData = JObj [(''chassis'', JObj [(''rideHeightF'', JStr ''22mm'')]),
                        (''suspension'', JObj [(''springsF'', JStr ''4.6'')])] \<rparr>"

definition legacy_20 :: car_setup where
  "legacy_20 = \<lparr> setup_id = Val ''s1'', setupSchemaVersion = Val (Fin 1),
      setupData = JObj [(''rideHeight'', JStr ''20mm'')] \<rparr>"

definition legacy_20_22 :: car_setup where
  "legacy_20_22 = \<lparr> setup_id = Val ''s2'', setupSchemaVersion = Undefined,
      setupData = JObj [(''rideHeight'', JStr ''20mm''),
                        (''chassis'', JObj [(''rideHeightF'', JStr ''22mm'')])] \<rparr>"

definition ex_setups :: "string \<rightharpoonup> car_setup" where
  "ex_setups = map_of [(''sA'', setupA), (''sB'', setupB)]"

definition ex_events :: "event list" where
  "ex_events =
     [\<lparr> e_id = Val ''e1'', e_trackId = Val ''t1'', e_date = Val ''2024-01-05'' \<rparr>,
      \<lparr> e_id = Val ''e2'', e_trackId = Val ''t1'', e_date = Val ''2024-01-06'' \<rparr>]"

definition ex_tracks :: "track list" where
  "ex_tracks = [\<lparr> t_id = Val ''t1'', t_name = Val ''Home'' \<rparr>]"

definition ex_tracksById :: "string \<rightharpoonup> track" where
  "ex_tracksById = map_of [(''t1'', \<lparr> t_id = Val ''t1'', t_name = Val ''Home'' \<rparr>)]"

text \<open>
  Two records to diff: under the group \<open>a\<close>, a leaf that is added, a padded string equal
  to its counterpart once trimmed, a leaf that is removed (its counterpart is blank), a
  leaf that is modified, and a \<open>null\<close> leaf with no counterpart.
\<close>

definition diff_left :: jsval where
  "diff_left = JObj [(''a'', JObj [(''x'', JStr []), (''y'', JStr '' 5 ''), (''z'', JStr ''1''),
                                   (''w'', JStr ''4.4''), (''v'', JNull)])]"

definition diff_right :: jsval where
  "diff_right = JObj [(''a'', JObj [(''x'', JStr ''5''), (''y'', JStr ''5''), (''z'', JStr ''  ''),
                                    (''w'', JStr ''4.6'')])]"

text \<open>
  Enriched runs of car c1 on track t1: run A with setup A and a best lap of 15.5 at
  event e1, run B with setup B and 15.1 at event e2 the day after, run C at event e1
  again with 15.2, and a run whose event does not exist and whose \<open>createdAt\<close> is \<open>null\<close>.
\<close>

definition runA :: enriched_run where
  "runA = \<lparr> run_id = Val ''rA'', eventId = Val ''e1'', carId = Val ''c1'',
      sessionType = Val ''Practice'', setupId = Val ''sA'',
      bestLap = LapStr ''15.5'', avgLap = LapStr [],
      createdAt = Val ''2024-01-05T10:00:00.000Z'',
      eventDate = Val ''2024-01-05'', trackId = Val ''t1'',
      bestLapNum = Some (Fin (155 / 10)), avgLapNum = None \<rparr>"

definition runB :: enriched_run where
  "runB = \<lparr> run_id = Val ''rB'', eventId = Val ''e2'', carId = Val ''c1'',
      sessionType = Val ''Practice'', setupId = Val ''sB'',
      bestLap = LapStr ''15.1'', avgLap = LapStr [],
      createdAt = Val ''2024-01-06T10:00:00.000Z'',
      eventDate = Val ''2024-01-06'', trackId = Val ''t1'',
      bestLapNum = Some (Fin (151 / 10)), avgLapNum = None \<rparr>"

definition runC :: enriched_run where
  "runC = \<lparr> run_id = Val ''rC'', eventId = Val ''e1'', carId = Val ''c1'',
      sessionType = Val ''Q1'', setupId = Val ''sA'',
      bestLap = LapStr ''15.2'', avgLap = LapStr [],
      createdAt = Val ''2024-01-05T11:00:00.000Z'',
      eventDate = Val ''2024-01-05'', trackId = Val ''t1'',
      bestLapNum = Some (Fin (152 / 10)), avgLapNum = None \<rparr>"

definition orphan_run :: enriched_run where
  "orphan_run = \<lparr> run_id = Val ''rX'', eventId = Val ''gone'', carId = Val ''c1'',
      sessionType = Val ''Practice'', setupId = Null,
      bestLap = LapStr ''14.9'', avgLap = LapStr [],
      createdAt = Null,
      eventDate = Null, trackId = Null,
      bestLapNum = Some (Fin (149 / 10)), avgLapNum = None \<rparr>"

text \<open>Two run logs with best laps 10 and 12 and no valid average lap.\<close>

definition lap_run_10 :: runlog where
  "lap_run_10 = \<lparr> run_id = Val ''r10'', eventId = Val ''e1'', carId = Val ''c1'',
      sessionType = Val ''Practice'', setupId = Null,
      bestLap = LapStr ''10'', avgLap = LapStr [], createdAt = Val ''2024-01-05T10:00:00.000Z'' \<rparr>"

definition lap_run_12 :: runlog where
  "lap_run_12 = \<lparr> run_id = Val ''r12'', eventId = Val ''e1'', carId = Val ''c1'',
      sessionType = Val ''Practice'', setupId = Null,
      bestLap = LapNum (Fin 12), avgLap = LapStr ''n/a'', createdAt = Val ''2024-01-05T11:00:00.000Z'' \<rparr>"

definition no_filters :: filters where
  "no_filters = \<lparr> f_carId = Undefined, f_trackId = Undefined, f_dateFrom = Undefined,
      f_dateTo = Undefined, f_sessionType = Undefined \<rparr>"

text \<open>The result of aggregating runs A, B and C with no filter.\<close>

definition ex_result :: "enriched_run agg_result" where
  "ex_result =
     \<lparr> filteredRuns = [runA, runB, runC],
       kpis = \<lparr> bestLapMin = Some (Fin (151 / 10)), avgLapMean = Some (Fin (458 / 30)),
                runCount = 3, eventCount = 2 \<rparr>,
       trendSeries =
         [\<lparr> tp_x = ''2024-01-05'', tp_bestLap = Some (Fin (152 / 10)), tp_avgLap = None \<rparr>,
          \<lparr> tp_x = ''2024-01-06'', tp_bestLap = Some (Fin (151 / 10)), tp_avgLap = None \<rparr>],
       byTrack =
         [\<lparr> ts_trackId = Val ''t1'', ts_trackName = Val ''Home'',
            ts_bestLapMin = Some (Fin (151 / 10)), ts_avgLapMean = None, ts_runCount = 3 \<rparr>] \<rparr>"

definition empty_result :: "enriched_run agg_result" where
  "empty_result =
     \<lparr> filteredRuns = [],
       kpis = \<lparr> bestLapMin = None, avgLapMean = None, runCount = 0, eventCount = 0 \<rparr>,
       trendSeries = [], byTrack = [] \<rparr>"

text \<open>
  The events again, the first with a date that is not one, and the result of aggregating
  runs A and B against them.
\<close>

definition tbd_events :: "event list" where
  "tbd_events =
     [\<lparr> e_id = Val ''e1'', e_trackId = Val ''t1'', e_date = Val ''TBD'' \<rparr>,
      \<lparr> e_id = Val ''e2'', e_trackId = Val ''t1'', e_date = Val ''2024-01-06'' \<rparr>]"

definition tbd_result :: "enriched_run agg_result" where
  "tbd_result =
     \<lparr> filteredRuns = [runA, runB],
       kpis = \<lparr> bestLapMin = Some (Fin (151 / 10)), avgLapMean = Some (Fin (153 / 10)),
                runCount = 2, eventCount = 2 \<rparr>,
       trendSeries =
         [\<lparr> tp_x = ''null'', tp_bestLap = Some (Fin (155 / 10)), tp_avgLap = None \<rparr>,
          \<lparr> tp_x = ''2024-01-06'', tp_bestLap = Some (Fin (151 / 10)), tp_avgLap = None \<rparr>],
       byTrack =
         [\<lparr> ts_trackId = Val ''t1'', ts_trackName = Val ''Home'',
            ts_bestLapMin = Some (Fin (151 / 10)), ts_avgLapMean = None, ts_runCount = 2 \<rparr>] \<rparr>"

section \<open>Lemmas: parsing\<close>

lemma lap_pos_cases: "lap_pos n \<longleftrightarrow> n = PosInf \<or> (\<exists>r. n = Fin r \<and> 0 < r)"
  by (cases n) (auto simp: lap_pos_def)

lemma parseLap_pos: "parseLap v = Some n \<Longrightarrow> lap_pos n"
  unfolding parseLap_def Let_def lap_pos_def
  by (cases n; cases "case v of LapStr s \<Rightarrow> parseFloat s | LapNum n \<Rightarrow> n | _ \<Rightarrow> NaN")
     (auto split: if_splits)

lemma non_null_parseLap_pos: "list_all lap_pos (non_null (map (\<lambda>r. parseLap (f r)) runs))"
proof (induction runs)
  case (Cons r runs)
  then show ?case by (cases "parseLap (f r)") (auto simp: parseLap_pos)
qed simp

section \<open>Lemmas: sums of lap values\<close>

lemma foldl_add_PosInf: "list_all lap_pos xs \<Longrightarrow> foldl js_add PosInf xs = PosInf"
proof (induction xs)
  case (Cons x xs)
  from Cons.prems have "js_add PosInf x = PosInf" by (cases x) (auto simp: lap_pos_def)
  then show ?case using Cons by simp
qed simp

lemma foldl_add_pos:
  "list_all lap_pos xs \<Longrightarrow>
   foldl js_add (Fin a) xs = (if list_all is_fin xs then Fin (a + sum_list (map fin_val xs)) else PosInf)"
proof (induction xs arbitrary: a)
  case (Cons x xs)
  from Cons.prems have x: "lap_pos x" and xs: "list_all lap_pos xs" by auto
  from x consider "x = PosInf" | r where "x = Fin r" by (auto simp: lap_pos_cases)
  then show ?case
  proof cases
    case 1
    then show ?thesis using foldl_add_PosInf [OF xs] by simp
  next
    case 2
    then show ?thesis using Cons.IH [OF xs, of "a + r"] by (simp add: add.assoc)
  qed
qed simp

lemma mean_of_arith_mean:
  assumes "list_all lap_pos xs" "xs \<noteq> []"
  shows "mean_of xs = arith_mean xs"
  using assms by (simp add: mean_of_def reduce_sum_def foldl_add_pos arith_mean_def)

section \<open>Lemmas: the diff walk\<close>

lemma visit_rows:
  "r \<in> set (visit ign a b p) \<Longrightarrow>
     \<exists>va vb q. \<not> isPlainObject va \<and> \<not> isPlainObject vb \<and> r = leaf_row va vb q"
proof (induction ign a b p rule: visit.induct)
  case (1 ign a b p)
  show ?case
  proof (cases "isPlainObject a \<or> isPlainObject b")
    case True
    with "1.prems" obtain key where k: "key \<in> set (key_union a b)"
      "join_path p key \<notin> set ign"
      "r \<in> set (visit ign (child a key) (child b key) (join_path p key))"
      by (subst (asm) visit.simps) (auto split: if_splits)
    from "1.IH" [OF True k(1) k(2) k(3)] show ?thesis .
  next
    case False
    with "1.prems" have "r = leaf_row a b p"
      by (subst (asm) visit.simps) simp
    with False show ?thesis by blast
  qed
qed

lemma changeType_not_none:
  assumes "r \<in> set (diffObjects a b ign)"
  shows "changeType r \<noteq> ''none''"
proof -
  from assms have "r \<in> set (visit ign (js_or a (JObj [])) (js_or b (JObj [])) [])"
    by (simp add: diffObjects_def)
  then obtain va vb q where "r = leaf_row va vb q"
    using visit_rows by blast
  then show ?thesis
    by (simp add: leaf_row_def Let_def)
qed

lemma changeCount_is_row_count:
  "length (filter (\<lambda>d. changeType d \<noteq> ''none'') (diffObjects a b ign)) = length (diffObjects a b ign)"
proof -
  have "filter (\<lambda>d. changeType d \<noteq> ''none'') (diffObjects a b ign) = diffObjects a b ign"
    by (rule filter_True) (simp add: changeType_not_none)
  then show ?thesis by simp
qed

lemma is_ws_space_char: "is_ws c = space_char c"
  by (auto simp: is_ws_def space_char_def)

lemma is_ws_eq: "is_ws = space_char"
  by (rule ext) (rule is_ws_space_char)

lemma trims_to_js_trim: "trims_to s (js_trim s)"
proof -
  let ?l = "takeWhile space_char s"
  let ?u = "dropWhile space_char s"
  let ?t = "rev (dropWhile space_char (rev ?u))"
  let ?r = "rev (takeWhile space_char (rev ?u))"
  have t: "js_trim s = ?t" by (simp add: js_trim_def is_ws_eq)
  have u: "?u = ?t @ ?r"
    by (metis rev_append rev_rev_ident takeWhile_dropWhile_id)
  have s: "s = ?l @ ?t @ ?r"
    using u by (metis takeWhile_dropWhile_id)
  have l: "list_all space_char ?l"
    by (simp add: list_all_iff) (meson set_takeWhileD)
  have r: "list_all space_char ?r"
    by (simp add: list_all_iff) (meson set_takeWhileD)
  have i: "length ?l \<in> set [0..<Suc (length s)]"
    using length_takeWhile_le [of space_char s] by auto
  have a: "take (length ?l) s = ?l"
    by (metis append_eq_conv_conj s)
  have d: "drop (length ?l) s = ?t @ ?r"
    by (metis append_eq_conv_conj s)
  have b: "take (length ?t) (drop (length ?l) s) = ?t"
    unfolding d by simp
  have c: "drop (length ?l + length ?t) s = ?r"
    by (metis add.commute append_eq_conv_conj d drop_drop)
  have ex: "list_ex (\<lambda>i. list_all space_char (take i s) \<and> take (length ?t) (drop i s) = ?t
                   \<and> list_all space_char (drop (i + length ?t) s)) [0..<Suc (length s)]"
    unfolding list_ex_iff using i a b c l r by metis
  have e: "(case ?t of [] \<Rightarrow> True | c # _ \<Rightarrow> \<not> space_char c \<and> \<not> space_char (last ?t))"
  proof (cases ?t)
    case (Cons c w)
    then have ne: "?t \<noteq> []" by simp
    then have dne: "dropWhile space_char (rev ?u) \<noteq> []" by simp
    have "last ?t = hd (dropWhile space_char (rev ?u))"
      using dne by (simp add: last_rev)
    then have la: "\<not> space_char (last ?t)"
      using dne hd_dropWhile by metis
    have une: "?u \<noteq> []"
    proof
      assume e: "?u = []"
      have "?t = []" unfolding e by simp
      with ne show False by blast
    qed
    have "hd ?t = hd ?u" using u ne by (metis hd_append2)
    then have "\<not> space_char (hd ?t)" using une hd_dropWhile by metis
    then have "\<not> space_char c" using Cons by simp
    with la show ?thesis unfolding Cons by simp
  next
    case Nil
    show ?thesis unfolding Nil by simp
  qed
  show ?thesis
    unfolding trims_to_def t using ex e by blast
qed

lemma js_trim_Nil_iff: "js_trim s = [] \<longleftrightarrow> list_all space_char s"
proof -
  have "js_trim s = [] \<longleftrightarrow> (\<forall>x \<in> set (dropWhile space_char s). space_char x)"
    by (simp add: js_trim_def is_ws_eq)
  also have "\<dots> \<longleftrightarrow> dropWhile space_char s = []"
    by (metis hd_dropWhile list.set_sel(1) empty_iff list.set(1))
  also have "\<dots> \<longleftrightarrow> list_all space_char s"
    by (simp add: list_all_iff)
  finally show ?thesis .
qed

lemma normal_form_normalizeValue: "normal_form v (normalizeValue v)"
  by (cases v) (simp_all add: trims_to_js_trim)

lemma isEmpty_normalizeValue: "isEmpty (normalizeValue v) = blank v"
  by (cases v) (simp_all add: js_trim_Nil_iff)

lemma js_isNaN_iff: "js_isNaN n \<longleftrightarrow> n = NaN"
  by (cases n) simp_all

lemma js_strict_eq_unequal:
  "\<not> isPlainObject x \<Longrightarrow> \<not> isPlainObject y \<Longrightarrow> js_strict_eq x y = (\<not> unequal x y)"
  by (cases x; cases y) (auto simp: unequal_def js_isNaN_iff)

lemma isPlainObject_normalizeValue: "isPlainObject (normalizeValue v) = isPlainObject v"
  by (cases v) simp_all

lemma classified_leaf_row:
  assumes "\<not> isPlainObject va" "\<not> isPlainObject vb"
  shows "classified (leaf_row va vb p) va vb"
  using assms
  by (simp add: classified_def leaf_row_def Let_def normal_form_normalizeValue
      isEmpty_normalizeValue js_strict_eq_unequal isPlainObject_normalizeValue)

lemma compared_leaves:
  "compared ign va vb p ks \<Longrightarrow> \<not> isPlainObject (value_at va ks) \<and> \<not> isPlainObject (value_at vb ks)"
  by (induction ks arbitrary: va vb p) auto

lemma visit_iff:
  "r \<in> set (visit ign va vb p) \<longleftrightarrow>
     (\<exists>ks. compared ign va vb p ks
        \<and> r = leaf_row (value_at va ks) (value_at vb ks) (foldl join_path p ks))"
proof (induction ign va vb p rule: visit.induct)
  case (1 ign a b p)
  show ?case
  proof (cases "isPlainObject a \<or> isPlainObject b")
    case True
    have ku: "set (key_union a b) = set (keys_of a) \<union> set (keys_of b)"
      by (auto simp: key_union_def)
    have "r \<in> set (visit ign a b p) \<longleftrightarrow>
        (\<exists>key \<in> set (key_union a b). join_path p key \<notin> set ign
            \<and> r \<in> set (visit ign (child a key) (child b key) (join_path p key)))"
      using True by (subst visit.simps) (auto split: if_splits)
    also have "\<dots> \<longleftrightarrow> (\<exists>key \<in> set (key_union a b). join_path p key \<notin> set ign
            \<and> (\<exists>ks. compared ign (child a key) (child b key) (join_path p key) ks
                 \<and> r = leaf_row (value_at (child a key) ks) (value_at (child b key) ks)
                         (foldl join_path (join_path p key) ks)))"
      using "1.IH" [OF True] by blast
    also have "\<dots> \<longleftrightarrow> (\<exists>ks. compared ign a b p ks
        \<and> r = leaf_row (value_at a ks) (value_at b ks) (foldl join_path p ks))"
    proof
      assume "\<exists>key \<in> set (key_union a b). join_path p key \<notin> set ign
            \<and> (\<exists>ks. compared ign (child a key) (child b key) (join_path p key) ks
                 \<and> r = leaf_row (value_at (child a key) ks) (value_at (child b key) ks)
                         (foldl join_path (join_path p key) ks))"
      then obtain key ks where k: "key \<in> set (key_union a b)" "join_path p key \<notin> set ign"
        "compared ign (child a key) (child b key) (join_path p key) ks"
        "r = leaf_row (value_at (child a key) ks) (value_at (child b key) ks)
                         (foldl join_path (join_path p key) ks)"
        by blast
      have "compared ign a b p (key # ks)" using True k ku by auto
      moreover have "r = leaf_row (value_at a (key # ks)) (value_at b (key # ks)) (foldl join_path p (key # ks))"
        using k(4) by simp
      ultimately show "\<exists>ks. compared ign a b p ks
        \<and> r = leaf_row (value_at a ks) (value_at b ks) (foldl join_path p ks)" by blast
    next
      assume "\<exists>ks. compared ign a b p ks
        \<and> r = leaf_row (value_at a ks) (value_at b ks) (foldl join_path p ks)"
      then obtain ks where c: "compared ign a b p ks"
        and r: "r = leaf_row (value_at a ks) (value_at b ks) (foldl join_path p ks)" by blast
      from c True obtain key rest where ks: "ks = key # rest" by (cases ks) auto
      with c r ku show "\<exists>key \<in> set (key_union a b). join_path p key \<notin> set ign
            \<and> (\<exists>ks. compared ign (child a key) (child b key) (join_path p key) ks
                 \<and> r = leaf_row (value_at (child a key) ks) (value_at (child b key) ks)
                         (foldl join_path (join_path p key) ks))"
        by auto
    qed
    finally show ?thesis .
  next
    case False
    have v: "visit ign a b p = [leaf_row a b p]"
      using False by (subst visit.simps) simp
    have "compared ign a b p ks \<longleftrightarrow> ks = []" for ks
      using False by (cases ks) auto
    then show ?thesis unfolding v by auto
  qed
qed


lemma path_leaf_row: "path (leaf_row va vb p) = p"
  by (simp add: leaf_row_def Let_def)

lemma distinct_key_union: "distinct (key_union a b)"
  by (simp add: key_union_def)

lemma set_key_union: "set (key_union a b) = set (keys_of a) \<union> set (keys_of b)"
  by (auto simp: key_union_def)

lemma length_filter_concat_map:
  "distinct ks \<Longrightarrow> length (filter Q (concat (map f ks))) = (\<Sum>k \<in> set ks. length (filter Q (f k)))"
  by (induction ks) simp_all

lemma visit_count:
  "finite {ks. compared ign va vb p ks \<and> foldl join_path p ks \<noteq> []}
   \<and> length (filter (\<lambda>r. path r \<noteq> []) (visit ign va vb p))
       = card {ks. compared ign va vb p ks \<and> foldl join_path p ks \<noteq> []}"
proof (induction ign va vb p rule: visit.induct)
  case (1 ign a b p)
  let ?S = "{ks. compared ign a b p ks \<and> foldl join_path p ks \<noteq> []}"
  show ?case
  proof (cases "isPlainObject a \<or> isPlainObject b")
    case False
    have v: "visit ign a b p = [leaf_row a b p]"
      using False by (subst visit.simps) simp
    have c: "compared ign a b p ks \<longleftrightarrow> ks = []" for ks
      using False by (cases ks) auto
    have "?S = (if p \<noteq> [] then {[]} else {})"
      by (auto simp: c)
    then show ?thesis unfolding v by (simp add: path_leaf_row)
  next
    case True
    let ?K = "{k \<in> set (key_union a b). join_path p k \<notin> set ign}"
    let ?T = "\<lambda>k. {ks. compared ign (child a k) (child b k) (join_path p k) ks
                      \<and> foldl join_path (join_path p k) ks \<noteq> []}"
    let ?f = "\<lambda>key. if join_path p key \<in> set ign then []
                  else visit ign (child a key) (child b key) (join_path p key)"
    have ih: "finite (?T k) \<and> length (filter (\<lambda>r. path r \<noteq> []) (?f k)) = card (?T k)"
      if "k \<in> ?K" for k
      using "1.IH" [OF True, of k] that by simp
    have S: "?S = (\<Union>k \<in> ?K. (#) k ` ?T k)"
    proof (intro set_eqI iffI)
      fix ks assume "ks \<in> ?S"
      then have c: "compared ign a b p ks" and q: "foldl join_path p ks \<noteq> []" by auto
      from c True obtain k rest where ks: "ks = k # rest" by (cases ks) auto
      with c q show "ks \<in> (\<Union>k \<in> ?K. (#) k ` ?T k)"
        by (auto simp: set_key_union)
    next
      fix ks assume "ks \<in> (\<Union>k \<in> ?K. (#) k ` ?T k)"
      then show "ks \<in> ?S" using True by (auto simp: set_key_union)
    qed
    have fin: "finite ?S"
      unfolding S using ih by auto
    have "card ?S = (\<Sum>k \<in> ?K. card ((#) k ` ?T k))"
      unfolding S
      by (rule card_UN_disjoint) (use ih in auto)
    also have "\<dots> = (\<Sum>k \<in> ?K. card (?T k))"
      by (intro sum.cong refl card_image) simp
    also have "\<dots> = (\<Sum>k \<in> ?K. length (filter (\<lambda>r. path r \<noteq> []) (?f k)))"
      using ih by simp
    also have "\<dots> = (\<Sum>k \<in> set (key_union a b). length (filter (\<lambda>r. path r \<noteq> []) (?f k)))"
      by (rule sum.mono_neutral_left) auto
    also have "\<dots> = length (filter (\<lambda>r. path r \<noteq> []) (concat (map ?f (key_union a b))))"
      by (rule length_filter_concat_map [OF distinct_key_union, symmetric])
    also have "concat (map ?f (key_union a b)) = visit ign a b p"
      using True by (subst visit.simps [of ign a b p]) simp
    finally show ?thesis using fin by simp
  qed
qed

lemma diffObjects_count:
  "length (diffObjects a b ign)
     = card {ks. compared ign (js_or a (JObj [])) (js_or b (JObj [])) [] ks \<and> dot_path ks \<noteq> []}"
  using visit_count [of ign "js_or a (JObj [])" "js_or b (JObj [])" "[]"]
  by (simp add: diffObjects_def dot_path_def)

section \<open>Lemmas: the shape of normalized setup data\<close>

lemma norm_literal_build:
  "norm_literal d = build_norm (\<lambda>g k. leaf_or_empty (js_or (js_get d g) (JObj [])) k)"
  by (simp add: norm_literal_def build_norm_def norm_schema_def Let_def)

lemma build_norm_cong:
  "(\<And>g ks k. (g, ks) \<in> set norm_schema \<Longrightarrow> k \<in> set ks \<Longrightarrow> f g k = f' g k) \<Longrightarrow> build_norm f = build_norm f'"
  unfolding build_norm_def by (auto intro!: map_cong)

lemma map_of_build_grp:
  "map_of (map (\<lambda>k. (k, h k)) ks) k = (if k \<in> set ks then Some (h k) else None)"
  by (induction ks) auto

lemma map_of_build:
  "distinct (map fst sch) \<Longrightarrow> (g, ks) \<in> set sch \<Longrightarrow>
   map_of (map (\<lambda>(g, ks). (g, F g ks)) sch) g = Some (F g ks)"
  by (induction sch) (auto simp: rev_image_eqI)

lemma distinct_schema: "distinct (map fst norm_schema)"
  by (simp add: norm_schema_def)

lemma js_get_build_grp:
  "(g, ks) \<in> set norm_schema \<Longrightarrow> js_get (build_norm f) g = JObj (map (\<lambda>k. (k, f g k)) ks)"
  unfolding build_norm_def using map_of_build [OF distinct_schema, of g ks "\<lambda>g ks. JObj (map (\<lambda>k. (k, f g k)) ks)"]
  by simp

lemma js_get_build_leaf:
  "(g, ks) \<in> set norm_schema \<Longrightarrow> k \<in> set ks \<Longrightarrow> js_get (js_get (build_norm f) g) k = f g k"
  by (simp add: js_get_build_grp map_of_build_grp)

lemma assign2_build:
  "assign2 (build_norm f) ''chassis'' ''rideHeightF'' v = build_norm (\<lambda>g k. if g = ''chassis'' \<and> k = ''rideHeightF'' then v else f g k)"
  "assign2 (build_norm f) ''suspension'' ''springsF'' v = build_norm (\<lambda>g k. if g = ''suspension'' \<and> k = ''springsF'' then v else f g k)"
  "assign2 (build_norm f) ''suspension'' ''shockOilF'' v = build_norm (\<lambda>g k. if g = ''suspension'' \<and> k = ''shockOilF'' then v else f g k)"
  by (simp_all add: build_norm_def norm_schema_def)

lemma schema_mem:
  "(''chassis'', [''rideHeightF'', ''rideHeightR'', ''droopF'', ''droopR'', ''weightBalanceNotes'']) \<in> set norm_schema"
  "(''suspension'', [''springsF'', ''springsR'', ''pistonsF'', ''pistonsR'', ''shockOilF'', ''shockOilR'',
                        ''shockPosF'', ''shockPosR'', ''camberF'', ''camberR'', ''toeF'', ''toeR'']) \<in> set norm_schema"
  by (simp_all add: norm_schema_def)

lemma front_leaves:
  "js_get (js_get (build_norm f) ''chassis'') ''rideHeightF'' = f ''chassis'' ''rideHeightF''"
  "js_get (js_get (build_norm f) ''suspension'') ''springsF'' = f ''suspension'' ''springsF''"
  "js_get (js_get (build_norm f) ''suspension'') ''shockOilF'' = f ''suspension'' ''shockOilF''"
  using js_get_build_leaf [OF schema_mem(1), of "''rideHeightF''" f]
    js_get_build_leaf [OF schema_mem(2), of "''springsF''" f]
    js_get_build_leaf [OF schema_mem(2), of "''shockOilF''" f]
  by simp_all

lemma upd_same: "(\<lambda>g k. if g = G \<and> k = K then f G K else f g k) = f"
  by (intro ext) auto

lemma map_legacy_build:
  "map_legacy d leg ''chassis'' ''rideHeightF'' (build_norm f) =
     build_norm (\<lambda>g k. if g = ''chassis'' \<and> k = ''rideHeightF''
        then (if js_truthy (js_get d leg) \<and> \<not> js_truthy (f ''chassis'' ''rideHeightF'')
              then js_get d leg else f ''chassis'' ''rideHeightF'')
        else f g k)"
  "map_legacy d leg ''suspension'' ''springsF'' (build_norm f) =
     build_norm (\<lambda>g k. if g = ''suspension'' \<and> k = ''springsF''
        then (if js_truthy (js_get d leg) \<and> \<not> js_truthy (f ''suspension'' ''springsF'')
              then js_get d leg else f ''suspension'' ''springsF'')
        else f g k)"
  "map_legacy d leg ''suspension'' ''shockOilF'' (build_norm f) =
     build_norm (\<lambda>g k. if g = ''suspension'' \<and> k = ''shockOilF''
        then (if js_truthy (js_get d leg) \<and> \<not> js_truthy (f ''suspension'' ''shockOilF'')
              then js_get d leg else f ''suspension'' ''shockOilF'')
        else f g k)"
  unfolding map_legacy_def front_leaves
  by (auto simp: assign2_build upd_same)

lemma normalizeSetupData_build: "normalizeSetupData s = build_norm (final_leaf s)"
proof -
  let ?d = "js_or (setupData s) (JObj [])"
  let ?f = "\<lambda>g k. leaf_or_empty (js_or (js_get ?d g) (JObj [])) k"
  show ?thesis
  proof (cases "js_lt (schema_or_1 (setupSchemaVersion s)) (Fin 2)")
    case True
    have "normalizeSetupData s =
        map_legacy ?d ''shockOil'' ''suspension'' ''shockOilF''
         (map_legacy ?d ''springs'' ''suspension'' ''springsF''
           (map_legacy ?d ''rideHeight'' ''chassis'' ''rideHeightF'' (build_norm ?f)))"
      using True by (simp add: normalizeSetupData_def Let_def norm_literal_build)
    also have "\<dots> = build_norm (final_leaf s)"
      unfolding map_legacy_build
      by (rule arg_cong [where f = build_norm], intro ext)
         (simp add: final_leaf_def Let_def True)
    finally show ?thesis .
  next
    case False
    have "normalizeSetupData s = build_norm ?f"
      using False by (simp add: normalizeSetupData_def Let_def norm_literal_build)
    also have "\<dots> = build_norm (final_leaf s)"
      by (rule arg_cong [where f = build_norm], intro ext)
         (simp add: final_leaf_def Let_def False)
    finally show ?thesis .
  qed
qed

lemma js_or_leaf_or_empty: "js_or (leaf_or_empty g k) (JStr []) = leaf_or_empty g k"
  by (simp add: leaf_or_empty_def js_or_def)

lemma final_leaf_canon: "js_or (final_leaf s g k) (JStr []) = final_leaf s g k"
proof -
  have "js_truthy v \<Longrightarrow> js_or v (JStr []) = v" for v
    by (simp add: js_or_def)
  then show ?thesis
    unfolding final_leaf_def Let_def
    by (simp add: js_or_leaf_or_empty)
qed

lemma legacy_keys_absent:
  "js_get (build_norm f) ''rideHeight'' = JUndefined"
  "js_get (build_norm f) ''springs'' = JUndefined"
  "js_get (build_norm f) ''shockOil'' = JUndefined"
  by (simp_all add: build_norm_def norm_schema_def prototype_functions_def)

lemma final_leaf_renorm:
  assumes "(g, ks) \<in> set norm_schema" "k \<in> set ks"
  shows "final_leaf (s\<lparr>setupData := build_norm (final_leaf x)\<rparr>) g k = final_leaf x g k"
proof -
  have d: "js_or (build_norm (final_leaf x)) (JObj []) = build_norm (final_leaf x)"
    by (simp add: js_or_def build_norm_def)
  have g: "js_or (js_get (build_norm (final_leaf x)) g) (JObj []) = js_get (build_norm (final_leaf x)) g"
    using js_get_build_grp [OF assms(1)] by (simp add: js_or_def)
  have v: "leaf_or_empty (js_get (build_norm (final_leaf x)) g) k = final_leaf x g k"
    unfolding leaf_or_empty_def js_get_build_leaf [OF assms] by (rule final_leaf_canon)
  show ?thesis
    unfolding final_leaf_def [of "s\<lparr>setupData := build_norm (final_leaf x)\<rparr>"]
    by (simp add: Let_def d g v legacy_keys_absent)
qed

section \<open>Lemmas: the aggregator\<close>

lemma withinDateRange_falsy: "\<not> truthy d \<Longrightarrow> \<not> withinDateRange h d s e"
  by (simp add: withinDateRange_def)

lemma run_passes_no_date:
  assumes "\<not> truthy (createdAt run)" "truthy (f_dateFrom fs) \<or> truthy (f_dateTo fs)"
  shows "\<not> run_passes h events fs run"
  using assms by (auto simp: run_passes_def withinDateRange_def)

lemma aggregateRuns_filtered:
  "aggregateRuns h runs events tracks fs = Inr res \<Longrightarrow>
     filteredRuns res = filter (run_passes h events fs) runs
     \<and> kpis res = calculateKPIs (filteredRuns res)
     \<and> buildTrendSeries h (filteredRuns res) events = Inr (trendSeries res)
     \<and> calculateByTrack h (filteredRuns res) events tracks = Inr (byTrack res)"
  by (auto simp: aggregateRuns_def Let_def split: sum.splits)

lemma aggregateRuns_cong_filter:
  "filter (run_passes h events fs) runs = filter (run_passes h events fs) runs' \<Longrightarrow>
   aggregateRuns h runs events tracks fs = aggregateRuns h runs' events tracks fs"
  by (simp add: aggregateRuns_def)

lemma own_entries_Nil: "own_entries [] = []"
  by (simp add: own_entries_def)

lemma buildTrendSeries_Nil: "buildTrendSeries h [] events = Inr []"
  by (simp add: buildTrendSeries_def js_sort_def own_entries_Nil)

lemma calculateByTrack_Nil: "calculateByTrack h [] events tracks = Inr []"
  by (simp add: calculateByTrack_def js_sort_def own_entries_Nil)

lemma calculateKPIs_Nil: "calculateKPIs [] = \<lparr> bestLapMin = None, avgLapMean = None, runCount = 0, eventCount = 0 \<rparr>"
  by (simp add: calculateKPIs_def)

section \<open>Evaluating the parser on literals\<close>

lemmas parse_defs =
  parseLap_def parseFloat_def str_unsigned_decimal_def is_ws_def is_digit_def
  digit_val_def digits_val_def exponent_factor_def

section \<open>The claims\<close>

subsection \<open>Lap parser\<close>

text \<open>
  C8 (what the code does). \<open>parseLap\<close> reads text with \<open>parseFloat\<close>, which takes the
  longest leading decimal literal and ignores whatever follows it. Text that is not a
  number as a whole but begins with one is therefore not rejected: the lap time
  \<open>1:05.3\<close> (one minute and 5.3 seconds) is read as 1 second and the text \<open>15abc\<close> as
  15 seconds, where the documented result for an invalid value is \<open>null\<close>. Text that
  begins with no number (\<open>abc\<close>) is rejected, and text that is a number (\<open>15.234\<close>) is
  read in full.
\<close>

theorem parseLap_accepts_trailing_text:
  "\<not> number_text ''1:05.3'' \<and> parseLap (LapStr ''1:05.3'') = Some (Fin 1)
   \<and> \<not> number_text ''15abc'' \<and> parseLap (LapStr ''15abc'') = Some (Fin 15)
   \<and> \<not> number_text ''abc'' \<and> parseLap (LapStr ''abc'') = None
   \<and> number_text ''15.234'' \<and> parseLap (LapStr ''15.234'') = Some (Fin (15234 / 1000))"
  by (simp add: number_text_def decimal_rest_def exponent_rest_def parse_defs)

subsection \<open>Setup normalizer\<close>

text \<open>
  C4. \<open>normalizeSetupData\<close> is idempotent: putting the canonical output of
  \<open>normalizeSetupData x\<close> back as the \<open>setupData\<close> of any setup record \<open>s\<close> (whatever its
  schema version) and normalizing again returns the same record.
\<close>

theorem normalizeSetupData_idempotent:
  "normalizeSetupData (s\<lparr>setupData := normalizeSetupData x\<rparr>) = normalizeSetupData x"
  unfolding normalizeSetupData_build [of x]
  unfolding normalizeSetupData_build [of "s\<lparr>setupData := build_norm (final_leaf x)\<rparr>"]
  by (rule build_norm_cong) (rule final_leaf_renorm)

theorem normalizeSetupData_idempotent_witness:
  "normalizeSetupData (legacy_20\<lparr>setupData := normalizeSetupData legacy_20\<rparr>)
     = normalizeSetupData legacy_20
   \<and> js_get (js_get (normalizeSetupData (legacy_20\<lparr>setupData := normalizeSetupData legacy_20\<rparr>))
        ''chassis'') ''rideHeightF'' = JStr ''20mm''"
  using normalizeSetupData_idempotent [of legacy_20 legacy_20]
  by (simp add: normalizeSetupData_build front_leaves final_leaf_def legacy_20_def Let_def
      js_or_def leaf_or_empty_def prototype_functions_def)

text \<open>
  C5. For a setup whose \<open>setupSchemaVersion\<close> is missing or less than 2, each of the
  three front-side slots (\<open>chassis.rideHeightF\<close>, \<open>suspension.springsF\<close>,
  \<open>suspension.shockOilF\<close>) of the normalized record holds the stored canonical value when
  that value is populated (truthy); only when it is not does the slot take the legacy
  flat field (\<open>rideHeight\<close>, \<open>springs\<close>, \<open>shockOil\<close>), if that is set, and else the empty
  string. A legacy value never replaces a populated canonical value.
\<close>

theorem legacy_fields_fill_empty_slots_only:
  assumes "setupSchemaVersion s = Undefined \<or> setupSchemaVersion s = Null
           \<or> (\<exists>n. setupSchemaVersion s = Val n \<and> js_lt n (Fin 2))"
    and "(legacy, grp, key) \<in> {(''rideHeight'', ''chassis'', ''rideHeightF''),
                                  (''springs'', ''suspension'', ''springsF''),
                                  (''shockOil'', ''suspension'', ''shockOilF'')}"
  shows "js_get (js_get (normalizeSetupData s) grp) key =
     (let data = js_or (setupData s) (JObj []);
          canonical = js_get (js_or (js_get data grp) (JObj [])) key
      in if js_truthy canonical then canonical
         else if js_truthy (js_get data legacy) then js_get data legacy
         else JStr [])"
proof -
  have lt: "js_lt (schema_or_1 (setupSchemaVersion s)) (Fin 2)"
    using assms(1) by (cases "setupSchemaVersion s") auto
  from assms(2) consider
      "legacy = ''rideHeight''" "grp = ''chassis''" "key = ''rideHeightF''"
    | "legacy = ''springs''" "grp = ''suspension''" "key = ''springsF''"
    | "legacy = ''shockOil''" "grp = ''suspension''" "key = ''shockOilF''"
    by auto
  then show ?thesis
    by cases
      (simp_all add: normalizeSetupData_build front_leaves final_leaf_def Let_def lt
        leaf_or_empty_def js_or_def)
qed

theorem legacy_fields_fill_empty_slots_only_witness:
  "js_lt (Fin 1) (Fin 2)
   \<and> js_get (js_get (normalizeSetupData legacy_20) ''chassis'') ''rideHeightF'' = JStr ''20mm''
   \<and> setupSchemaVersion legacy_20_22 = Undefined
   \<and> js_get (js_get (normalizeSetupData legacy_20_22) ''chassis'') ''rideHeightF'' = JStr ''22mm''"
proof -
  have a: "setupSchemaVersion legacy_20 = Undefined \<or> setupSchemaVersion legacy_20 = Null
           \<or> (\<exists>n. setupSchemaVersion legacy_20 = Val n \<and> js_lt n (Fin 2))"
    by (simp add: legacy_20_def)
  have b: "setupSchemaVersion legacy_20_22 = Undefined \<or> setupSchemaVersion legacy_20_22 = Null
           \<or> (\<exists>n. setupSchemaVersion legacy_20_22 = Val n \<and> js_lt n (Fin 2))"
    by (simp add: legacy_20_22_def)
  have m: "(''rideHeight'', ''chassis'', ''rideHeightF'') \<in>
             {(''rideHeight'', ''chassis'', ''rideHeightF''),
              (''springs'', ''suspension'', ''springsF''),
              (''shockOil'', ''suspension'', ''shockOilF'')}"
    by simp
  show ?thesis
    using legacy_fields_fill_empty_slots_only [OF a m] legacy_fields_fill_empty_slots_only [OF b m]
    by (simp add: legacy_20_def legacy_20_22_def Let_def js_or_def prototype_functions_def)
qed

subsection \<open>Structural diff engine\<close>

text \<open>
  C3. Every row that \<open>diffObjects\<close> emits is the classification of a pair of leaf
  values that it compares: the two values found in the two inputs under one key path
  that the walk follows (\<open>compared\<close>). The row has the path of that key path and carries
  the normal forms of the two values (a string trimmed, \<open>null\<close> and \<open>undefined\<close> as the
  empty string). With "empty" meaning \<open>null\<close>, \<open>undefined\<close> or a string that is empty
  once trimmed, its \<open>changeType\<close> is \<open>added\<close> iff the left value is empty and the right
  is not, \<open>removed\<close> iff the left is not empty and the right is, \<open>modified\<close> iff neither
  is empty and the normal forms are unequal (under \<open>!==\<close>, so NaN is unequal to itself),
  and \<open>same\<close> otherwise; \<open>changed\<close> is true iff \<open>changeType\<close> is not \<open>same\<close>.
  Conversely, every compared pair whose path is not empty has such a row, and there are
  as many rows as there are such pairs.
\<close>

theorem diff_row_classification:
  "(r \<in> set (diffObjects a b ignorePaths) \<longrightarrow>
      path r \<noteq> []
      \<and> (\<exists>ks. compared ignorePaths (js_or a (JObj [])) (js_or b (JObj [])) [] ks
             \<and> path r = dot_path ks
             \<and> classified r (value_at (js_or a (JObj [])) ks) (value_at (js_or b (JObj [])) ks)))
   \<and> (compared ignorePaths (js_or a (JObj [])) (js_or b (JObj [])) [] ks \<and> dot_path ks \<noteq> [] \<longrightarrow>
        (\<exists>r \<in> set (diffObjects a b ignorePaths).
            path r = dot_path ks
            \<and> classified r (value_at (js_or a (JObj [])) ks) (value_at (js_or b (JObj [])) ks)))
   \<and> length (diffObjects a b ignorePaths)
       = card {ks. compared ignorePaths (js_or a (JObj [])) (js_or b (JObj [])) [] ks \<and> dot_path ks \<noteq> []}"
proof -
  let ?a = "js_or a (JObj [])" and ?b = "js_or b (JObj [])"
  have row: "path (leaf_row (value_at ?a js) (value_at ?b js) (dot_path js)) = dot_path js
      \<and> classified (leaf_row (value_at ?a js) (value_at ?b js) (dot_path js))
            (value_at ?a js) (value_at ?b js)"
    if "compared ignorePaths ?a ?b [] js" for js
    using compared_leaves [OF that] by (simp add: path_leaf_row classified_leaf_row)
  have mem: "x \<in> set (diffObjects a b ignorePaths) \<longleftrightarrow>
      path x \<noteq> [] \<and> (\<exists>js. compared ignorePaths ?a ?b [] js
        \<and> x = leaf_row (value_at ?a js) (value_at ?b js) (dot_path js))" for x
    by (auto simp: diffObjects_def visit_iff dot_path_def)
  have sound: "path r \<noteq> []
      \<and> (\<exists>ks. compared ignorePaths ?a ?b [] ks \<and> path r = dot_path ks
             \<and> classified r (value_at ?a ks) (value_at ?b ks))"
    if "r \<in> set (diffObjects a b ignorePaths)"
  proof -
    from that mem [of r] obtain js where js: "path r \<noteq> []" "compared ignorePaths ?a ?b [] js"
      "r = leaf_row (value_at ?a js) (value_at ?b js) (dot_path js)"
      by blast
    from row [OF js(2)] js show ?thesis by metis
  qed
  have complete: "\<exists>r \<in> set (diffObjects a b ignorePaths).
            path r = dot_path ks \<and> classified r (value_at ?a ks) (value_at ?b ks)"
    if c: "compared ignorePaths ?a ?b [] ks" and p: "dot_path ks \<noteq> []"
  proof -
    let ?r = "leaf_row (value_at ?a ks) (value_at ?b ks) (dot_path ks)"
    have "?r \<in> set (diffObjects a b ignorePaths)"
      using mem [of ?r] c p row [OF c] by metis
    with row [OF c] show ?thesis by blast
  qed
  from sound complete diffObjects_count [of a b ignorePaths] show ?thesis by blast
qed

theorem diff_row_classification_witness:
  "diffObjects diff_left diff_right [] =
     [\<lparr> path = ''a.x'', group = ''a'', aValue = JStr [], bValue = JStr ''5'',
         changed = True, changeType = ''added'' \<rparr>,
      \<lparr> path = ''a.y'', group = ''a'', aValue = JStr ''5'', bValue = JStr ''5'',
         changed = False, changeType = ''same'' \<rparr>,
      \<lparr> path = ''a.z'', group = ''a'', aValue = JStr ''1'', bValue = JStr [],
         changed = True, changeType = ''removed'' \<rparr>,
      \<lparr> path = ''a.w'', group = ''a'', aValue = JStr ''4.4'', bValue = JStr ''4.6'',
         changed = True, changeType = ''modified'' \<rparr>,
      \<lparr> path = ''a.v'', group = ''a'', aValue = JStr [], bValue = JStr [],
         changed = False, changeType = ''same'' \<rparr>]
   \<and> diffObjects (JObj [(''a'', JObj [(''x'', JStr ''1'')])]) (JObj [(''a'', JObj [(''x'', JStr ''1'')])]) []
       = [\<lparr> path = ''a.x'', group = ''a'', aValue = JStr ''1'', bValue = JStr ''1'',
             changed = False, changeType = ''same'' \<rparr>]
   \<and> diffObjects (JObj [(''a'', JObj [(''x'', JStr [])])]) (JObj [(''a'', JObj [(''x'', JStr ''5'')])]) []
       = [\<lparr> path = ''a.x'', group = ''a'', aValue = JStr [], bValue = JStr ''5'',
             changed = True, changeType = ''added'' \<rparr>]
   \<and> diffObjects (JObj [(''a'', JObj [(''x'', JStr ''5'')])]) (JObj [(''a'', JObj [(''x'', JStr [])])]) []
       = [\<lparr> path = ''a.x'', group = ''a'', aValue = JStr ''5'', bValue = JStr [],
             changed = True, changeType = ''removed'' \<rparr>]
   \<and> diffObjects (JObj []) (JObj [(''constructor'', JStr ''x'')]) []
       = [\<lparr> path = ''constructor'', group = ''constructor'', aValue = JFun ''constructor'',
             bValue = JStr ''x'', changed = True, changeType = ''modified'' \<rparr>]
   \<and> diffObjects (JObj []) (JObj [(''__proto__'', JStr ''s'')]) [] = []
   \<and> map path (diffObjects diff_left diff_right [''a.w'']) = [''a.x'', ''a.y'', ''a.z'', ''a.v'']
   \<and> compared [] diff_left diff_right [] [''a'', ''y'']
   \<and> dot_path [''a'', ''y''] = ''a.y''
   \<and> value_at diff_left [''a'', ''y''] = JStr '' 5 ''
   \<and> value_at diff_right [''a'', ''y''] = JStr ''5''
   \<and> trims_to '' 5 '' ''5''
   \<and> (\<exists>r \<in> set (diffObjects diff_left diff_right []).
          path r = ''a.y'' \<and> classified r (JStr '' 5 '') (JStr ''5''))
   \<and> (\<exists>ks. compared [] diff_left diff_right [] ks \<and> dot_path ks = ''a.w''
          \<and> classified \<lparr> path = ''a.w'', group = ''a'', aValue = JStr ''4.4'', bValue = JStr ''4.6'',
                          changed = True, changeType = ''modified'' \<rparr>
                (value_at diff_left ks) (value_at diff_right ks))
   \<and> card {ks. compared [] diff_left diff_right [] ks \<and> dot_path ks \<noteq> []} = 5"
proof -
  let ?w = "\<lparr> path = ''a.w'', group = ''a'', aValue = JStr ''4.4'', bValue = JStr ''4.6'',
              changed = True, changeType = ''modified'' \<rparr>"
  have d: "diffObjects diff_left diff_right [] =
     [\<lparr> path = ''a.x'', group = ''a'', aValue = JStr [], bValue = JStr ''5'',
         changed = True, changeType = ''added'' \<rparr>,
      \<lparr> path = ''a.y'', group = ''a'', aValue = JStr ''5'', bValue = JStr ''5'',
         changed = False, changeType = ''same'' \<rparr>,
      \<lparr> path = ''a.z'', group = ''a'', aValue = JStr ''1'', bValue = JStr [],
         changed = True, changeType = ''removed'' \<rparr>,
      ?w,
      \<lparr> path = ''a.v'', group = ''a'', aValue = JStr [], bValue = JStr [],
         changed = False, changeType = ''same'' \<rparr>]"
    by code_simp
  have e1: "diffObjects (JObj [(''a'', JObj [(''x'', JStr ''1'')])]) (JObj [(''a'', JObj [(''x'', JStr ''1'')])]) []
       = [\<lparr> path = ''a.x'', group = ''a'', aValue = JStr ''1'', bValue = JStr ''1'',
             changed = False, changeType = ''same'' \<rparr>]"
    by code_simp
  have e2: "diffObjects (JObj [(''a'', JObj [(''x'', JStr [])])]) (JObj [(''a'', JObj [(''x'', JStr ''5'')])]) []
       = [\<lparr> path = ''a.x'', group = ''a'', aValue = JStr [], bValue = JStr ''5'',
             changed = True, changeType = ''added'' \<rparr>]"
    by code_simp
  have e3: "diffObjects (JObj [(''a'', JObj [(''x'', JStr ''5'')])]) (JObj [(''a'', JObj [(''x'', JStr [])])]) []
       = [\<lparr> path = ''a.x'', group = ''a'', aValue = JStr ''5'', bValue = JStr [],
             changed = True, changeType = ''removed'' \<rparr>]"
    by code_simp
  have e4: "diffObjects (JObj []) (JObj [(''constructor'', JStr ''x'')]) []
       = [\<lparr> path = ''constructor'', group = ''constructor'', aValue = JFun ''constructor'',
             bValue = JStr ''x'', changed = True, changeType = ''modified'' \<rparr>]"
    by code_simp
  have e5: "diffObjects (JObj []) (JObj [(''__proto__'', JStr ''s'')]) [] = []"
    by code_simp
  have e6: "map path (diffObjects diff_left diff_right [''a.w'']) = [''a.x'', ''a.y'', ''a.z'', ''a.v'']"
    by code_simp
  have c: "compared [] diff_left diff_right [] [''a'', ''y'']" by code_simp
  have p: "dot_path [''a'', ''y''] = ''a.y''" by code_simp
  have va: "value_at diff_left [''a'', ''y''] = JStr '' 5 ''" by code_simp
  have vb: "value_at diff_right [''a'', ''y''] = JStr ''5''" by code_simp
  have t: "trims_to '' 5 '' ''5''" by code_simp
  have l: "js_or diff_left (JObj []) = diff_left" "js_or diff_right (JObj []) = diff_right"
    by (simp_all add: js_or_def diff_left_def diff_right_def)
  have w: "?w \<in> set (diffObjects diff_left diff_right [])"
    unfolding d by simp
  have pw: "path ?w = ''a.w''" by simp
  note th = diff_row_classification [of ?w diff_left diff_right "[]" "[''a'', ''y'']", unfolded l]
  from th w obtain ks where ks: "compared [] diff_left diff_right [] ks" "path ?w = dot_path ks"
      "classified ?w (value_at diff_left ks) (value_at diff_right ks)"
    by blast
  from ks(2) have "dot_path ks = ''a.w''" by simp
  with ks have s1: "\<exists>ks. compared [] diff_left diff_right [] ks \<and> dot_path ks = ''a.w''
          \<and> classified ?w (value_at diff_left ks) (value_at diff_right ks)"
    by blast
  have ne: "dot_path [''a'', ''y''] \<noteq> []" unfolding p by simp
  from th c ne
  have "\<exists>r \<in> set (diffObjects diff_left diff_right []).
          path r = dot_path [''a'', ''y'']
          \<and> classified r (value_at diff_left [''a'', ''y'']) (value_at diff_right [''a'', ''y''])"
    by blast
  then have s2: "\<exists>r \<in> set (diffObjects diff_left diff_right []).
          path r = ''a.y'' \<and> classified r (JStr '' 5 '') (JStr ''5'')"
    unfolding p va vb .
  from th have "length (diffObjects diff_left diff_right [])
       = card {ks. compared [] diff_left diff_right [] ks \<and> dot_path ks \<noteq> []}"
    by blast
  then have n: "card {ks. compared [] diff_left diff_right [] ks \<and> dot_path ks \<noteq> []} = 5"
    unfolding d by simp
  from d e1 e2 e3 e4 e5 e6 c p va vb t s1 s2 n show ?thesis by blast
qed

subsection \<open>Run aggregator\<close>

text \<open>
  C2. \<open>kpis.avgLapMean\<close> is the arithmetic mean of the valid (non-null) parsed \<open>avgLap\<close>
  values of the runs; when there is none but there is a valid parsed \<open>bestLap\<close>, it is
  the mean of those; else it is \<open>null\<close>. The \<open>kpis\<close> of \<open>aggregateRuns\<close> are those of its
  filtered runs. Best laps 10 and 12 with no valid \<open>avgLap\<close> give 11.
\<close>

theorem avgLapMean_is_mean_with_fallback:
  "avgLapMean (calculateKPIs runs) =
     (let avgs = non_null (map (\<lambda>r. parseLap (avgLap r)) runs);
          bests = non_null (map (\<lambda>r. parseLap (bestLap r)) runs)
      in if avgs \<noteq> [] then Some (arith_mean avgs)
         else if bests \<noteq> [] then Some (arith_mean bests)
         else None)
   \<and> (\<forall>res. aggregateRuns h all_runs events tracks fs = Inr res \<longrightarrow>
         kpis res = calculateKPIs (filteredRuns res))"
proof -
  have "avgLapMean (calculateKPIs runs) =
     (let avgs = non_null (map (\<lambda>r. parseLap (avgLap r)) runs);
          bests = non_null (map (\<lambda>r. parseLap (bestLap r)) runs)
      in if avgs \<noteq> [] then Some (arith_mean avgs)
         else if bests \<noteq> [] then Some (arith_mean bests)
         else None)"
    by (simp add: calculateKPIs_def Let_def mean_of_arith_mean non_null_parseLap_pos)
  then show ?thesis using aggregateRuns_filtered by blast
qed

theorem avgLapMean_is_mean_with_fallback_witness:
  "avgLapMean (calculateKPIs [lap_run_10, lap_run_12]) = Some (Fin 11)
   \<and> aggregateRuns utc_host [runA, runB, runC] ex_events ex_tracks no_filters = Inr ex_result
   \<and> kpis ex_result = calculateKPIs [runA, runB, runC]"
proof -
  have a: "aggregateRuns utc_host [runA, runB, runC] ex_events ex_tracks no_filters = Inr ex_result"
    by code_simp
  have l: "non_null (map (\<lambda>r. parseLap (avgLap r)) [lap_run_10, lap_run_12]) = []"
    "non_null (map (\<lambda>r. parseLap (bestLap r)) [lap_run_10, lap_run_12]) = [Fin 10, Fin 12]"
    by (simp_all add: lap_run_10_def lap_run_12_def parse_defs)
  have f: "filteredRuns ex_result = [runA, runB, runC]" by (simp add: ex_result_def)
  show ?thesis
    using avgLapMean_is_mean_with_fallback [of "[lap_run_10, lap_run_12]" utc_host
        "[runA, runB, runC]" ex_events ex_tracks no_filters] a l f
    by (simp add: arith_mean_def)
qed

text \<open>
  C6 (what the code does). \<open>buildTrendSeries\<close> takes the result of \<open>dateKeyFromLocal\<close>
  as the day key of a run without testing it. For an event whose \<open>date\<close> is set but is
  not a date that result is \<open>null\<close>, which becomes the property name \<open>null\<close>: the runs
  of the event are collected into a point with \<open>x = 'null'\<close>, which stands for no
  calendar day and has no date to be ordered by (\<open>new Date('null')\<close> is an Invalid
  Date). With event e1 dated \<open>TBD\<close>, runs A and B give the series \<open>null\<close>,
  \<open>2024-01-06\<close>, whose points are not ascending by date.
\<close>

theorem trend_series_null_day_key:
  "aggregateRuns utc_host [runA, runB] tbd_events ex_tracks no_filters = Inr tbd_result
   \<and> dateKeyFromLocal utc_host (Val ''TBD'') = None
   \<and> map tp_x (trendSeries tbd_result) = [''null'', ''2024-01-06'']
   \<and> Date_parse utc_host ''null'' = None
   \<and> \<not> sorted_wrt (\<lambda>p q. time_lt (Date_parse utc_host (tp_x p)) (Date_parse utc_host (tp_x q)))
         (trendSeries tbd_result)"
proof -
  have a: "aggregateRuns utc_host [runA, runB] tbd_events ex_tracks no_filters = Inr tbd_result"
    by code_simp
  have k: "dateKeyFromLocal utc_host (Val ''TBD'') = None"
    by code_simp
  have n: "Date_parse utc_host ''null'' = None"
    by code_simp
  have x: "map tp_x (trendSeries tbd_result) = [''null'', ''2024-01-06'']"
    by (simp add: tbd_result_def)
  have "\<not> sorted_wrt (\<lambda>p q. time_lt (Date_parse utc_host (tp_x p)) (Date_parse utc_host (tp_x q)))
         (trendSeries tbd_result)"
    using n by (simp add: tbd_result_def)
  with a k n x show ?thesis by blast
qed

text \<open>
  C7. With a \<open>trackId\<close> filter set, a run passes the filter of \<open>aggregateRuns\<close> only if
  its \<open>eventId\<close> resolves to an event of the supplied list and that event's \<open>trackId\<close>
  equals the filter value; a run whose event cannot be found is excluded whatever its
  other fields are.
\<close>

theorem trackId_filter_needs_resolved_event:
  assumes "truthy (f_trackId fs)"
  shows "(run \<in> set (filter (run_passes h events fs) runs) \<longrightarrow>
           (\<exists>ev. find (\<lambda>e. e_id e = eventId run) events = Some ev \<and> e_trackId ev = f_trackId fs))
     \<and> (find (\<lambda>e. e_id e = eventId run) events = None \<longrightarrow> \<not> run_passes h events fs run)
     \<and> (\<forall>res. aggregateRuns h runs events tracks fs = Inr res \<longrightarrow> run \<in> set (filteredRuns res) \<longrightarrow>
           (\<exists>ev. find (\<lambda>e. e_id e = eventId run) events = Some ev \<and> e_trackId ev = f_trackId fs))"
proof -
  have p: "run_passes h events fs run \<Longrightarrow>
      \<exists>ev. find (\<lambda>e. e_id e = eventId run) events = Some ev \<and> e_trackId ev = f_trackId fs"
    using assms by (auto simp: run_passes_def split: if_splits option.splits)
  show ?thesis
    using p aggregateRuns_filtered [of h runs events tracks fs] by (auto simp del: not_None_eq)
qed

theorem trackId_filter_needs_resolved_event_witness:
  "truthy (f_trackId (no_filters\<lparr>f_trackId := Val ''t1''\<rparr>))
   \<and> find (\<lambda>e. e_id e = eventId orphan_run) ex_events = None
   \<and> \<not> run_passes utc_host ex_events (no_filters\<lparr>f_trackId := Val ''t1''\<rparr>) orphan_run
   \<and> run_passes utc_host ex_events no_filters orphan_run
   \<and> filter (run_passes utc_host ex_events (no_filters\<lparr>f_trackId := Val ''t1''\<rparr>)) [runA, orphan_run]
       = [runA]"
proof -
  have t: "truthy (f_trackId (no_filters\<lparr>f_trackId := Val ''t1''\<rparr>))" by simp
  have f: "find (\<lambda>e. e_id e = eventId orphan_run) ex_events = None"
    by (simp add: ex_events_def orphan_run_def)
  have o: "run_passes utc_host ex_events no_filters orphan_run"
    by (simp add: run_passes_def no_filters_def)
  have l: "filter (run_passes utc_host ex_events (no_filters\<lparr>f_trackId := Val ''t1''\<rparr>)) [runA, orphan_run]
       = [runA]"
    by (simp add: run_passes_def no_filters_def ex_events_def orphan_run_def runA_def)
  from trackId_filter_needs_resolved_event [OF t, of orphan_run utc_host ex_events] f o l t
  show ?thesis by blast
qed

text \<open>
  C9. \<open>aggregateRuns\<close> on an empty run list, or with filters that no run passes, returns
  normally (no exception) with \<open>kpis = {bestLapMin: null, avgLapMean: null, runCount: 0,
  eventCount: 0}\<close>, \<open>trendSeries = []\<close> and \<open>byTrack = []\<close>.
\<close>

theorem aggregateRuns_empty:
  "aggregateRuns h [] events tracks fs =
      Inr \<lparr> filteredRuns = [],
            kpis = \<lparr> bestLapMin = None, avgLapMean = None, runCount = 0, eventCount = 0 \<rparr>,
            trendSeries = [], byTrack = [] \<rparr>
   \<and> (filter (run_passes h events fs) runs = [] \<longrightarrow>
        aggregateRuns h runs events tracks fs =
          Inr \<lparr> filteredRuns = [],
                kpis = \<lparr> bestLapMin = None, avgLapMean = None, runCount = 0, eventCount = 0 \<rparr>,
                trendSeries = [], byTrack = [] \<rparr>)"
  by (simp add: aggregateRuns_def buildTrendSeries_Nil calculateByTrack_Nil calculateKPIs_Nil)

theorem aggregateRuns_empty_witness:
  "aggregateRuns utc_host [] ex_events ex_tracks no_filters = Inr empty_result
   \<and> filter (run_passes utc_host ex_events (no_filters\<lparr>f_carId := Val ''c9''\<rparr>)) [runA, runB, runC] = []
   \<and> aggregateRuns utc_host [runA, runB, runC] ex_events ex_tracks (no_filters\<lparr>f_carId := Val ''c9''\<rparr>)
       = Inr empty_result"
proof -
  have f: "filter (run_passes utc_host ex_events (no_filters\<lparr>f_carId := Val ''c9''\<rparr>)) [runA, runB, runC] = []"
    by (simp add: run_passes_def no_filters_def runA_def runB_def runC_def)
  show ?thesis
    unfolding empty_result_def
    using aggregateRuns_empty [of utc_host ex_events ex_tracks no_filters "[runA, runB, runC]"]
      aggregateRuns_empty [of utc_host ex_events ex_tracks "no_filters\<lparr>f_carId := Val ''c9''\<rparr>"
        "[runA, runB, runC]"] f
    by blast
qed

text \<open>
  C10. A run whose \<open>createdAt\<close> is \<open>null\<close>, \<open>undefined\<close> or the empty string fails the
  date-range test (\<open>withinDateRange\<close> is false for it) as soon as \<open>dateFrom\<close> or \<open>dateTo\<close>
  is set: it is not among the filtered runs, and the whole result of \<open>aggregateRuns\<close>
  (KPIs, trend series, per-track summary, or the exception) is the same as if the run
  had not been in the input.
\<close>

theorem missing_createdAt_fails_date_filter:
  assumes "createdAt run = Undefined \<or> createdAt run = Null \<or> createdAt run = Val []"
    and "truthy (f_dateFrom fs) \<or> truthy (f_dateTo fs)"
  shows "\<not> withinDateRange h (createdAt run) (f_dateFrom fs) (f_dateTo fs)
     \<and> run \<notin> set (filter (run_passes h events fs) runs)
     \<and> aggregateRuns h runs events tracks fs
         = aggregateRuns h (filter (\<lambda>r. r \<noteq> run) runs) events tracks fs
     \<and> (\<forall>res. aggregateRuns h runs events tracks fs = Inr res \<longrightarrow> run \<notin> set (filteredRuns res))"
proof -
  have f: "\<not> truthy (createdAt run)" using assms(1) by auto
  have np: "\<not> run_passes h events fs run" by (rule run_passes_no_date [OF f assms(2)])
  have "filter (run_passes h events fs) (filter (\<lambda>r. r \<noteq> run) runs) = filter (run_passes h events fs) runs"
    using np by (auto intro!: filter_cong)
  then have "aggregateRuns h runs events tracks fs = aggregateRuns h (filter (\<lambda>r. r \<noteq> run) runs) events tracks fs"
    by (intro aggregateRuns_cong_filter) simp
  moreover have "\<forall>res. aggregateRuns h runs events tracks fs = Inr res \<longrightarrow> run \<notin> set (filteredRuns res)"
    using np aggregateRuns_filtered by fastforce
  ultimately show ?thesis using np withinDateRange_falsy [OF f] by simp
qed

theorem missing_createdAt_fails_date_filter_witness:
  "createdAt orphan_run = Null
   \<and> truthy (f_dateFrom (no_filters\<lparr>f_dateFrom := Val ''2024-01-01''\<rparr>))
   \<and> orphan_run \<in> set (filter (run_passes utc_host ex_events no_filters) [runA, orphan_run])
   \<and> orphan_run \<notin> set (filter (run_passes utc_host ex_events (no_filters\<lparr>f_dateFrom := Val ''2024-01-01''\<rparr>))
                         [runA, orphan_run])
   \<and> aggregateRuns utc_host [runA, orphan_run] ex_events ex_tracks (no_filters\<lparr>f_dateFrom := Val ''2024-01-01''\<rparr>)
       = aggregateRuns utc_host [runA] ex_events ex_tracks (no_filters\<lparr>f_dateFrom := Val ''2024-01-01''\<rparr>)"
proof -
  have c: "createdAt orphan_run = Undefined \<or> createdAt orphan_run = Null \<or> createdAt orphan_run = Val []"
    by (simp add: orphan_run_def)
  have t: "truthy (f_dateFrom (no_filters\<lparr>f_dateFrom := Val ''2024-01-01''\<rparr>))
           \<or> truthy (f_dateTo (no_filters\<lparr>f_dateFrom := Val ''2024-01-01''\<rparr>))"
    by simp
  have o: "orphan_run \<in> set (filter (run_passes utc_host ex_events no_filters) [runA, orphan_run])"
    by (simp add: run_passes_def no_filters_def)
  have ne: "runA \<noteq> orphan_run" by (simp add: runA_def orphan_run_def)
  show ?thesis
    using missing_createdAt_fails_date_filter [OF c t, of utc_host ex_events "[runA, orphan_run]" ex_tracks]
      o ne
    by (simp add: orphan_run_def)
qed

subsection \<open>Setup-change correlator\<close>

text \<open>
  C1 (what the code does). The change count of a comparison is the number of diff rows
  whose \<open>changeType\<close> is not the text \<open>none\<close>. No row ever has that \<open>changeType\<close> (an
  unchanged row has \<open>same\<close>), so the count is the number of all rows. For runs A and B
  (setups A and B differ in \<open>springsF\<close>, 4.4 against 4.6, and B adds \<open>rideHeightF\<close>; the
  best lap goes from 15.5 to 15.1) the diff has 36 rows, 2 of them changed:
  \<open>analyzeSetupChanges\<close> emits one comparison with \<open>changeCount\<close> 36, \<open>bestLapDelta\<close> -0.4
  and the note \<open>Improved by 0.400s\<close>.
\<close>

theorem changeCount_counts_every_row:
  "analyzeSetupChanges utc_host [runA, runB] ex_setups ex_tracksById =
     Inr [\<lparr> cmp_date = Val ''2024-01-06'', cmp_trackName = Val ''Home'', changeCount = 36,
           bestLapDelta = Fin (- (4 / 10)), cmp_notes = ''Improved by 0.400s'' \<rparr>]
   \<and> length (diffObjects (normalizeSetupData setupA) (normalizeSetupData setupB) []) = 36
   \<and> length (filter changed (diffObjects (normalizeSetupData setupA) (normalizeSetupData setupB) [])) = 2
   \<and> length (filter (\<lambda>d. changeType d \<noteq> ''same'')
        (diffObjects (normalizeSetupData setupA) (normalizeSetupData setupB) [])) = 2"
  by code_simp

end
